theory Spec2Isabelle
  imports Main "HOL-Library.Word" "HOL-Library.Multiset"
begin

section \<open>JavaScript strings\<close>

text \<open>
  A JavaScript string is a sequence of UTF-16 code units. Identifiers issued by the
  database or the auth provider (UUIDs) are only ever compared for equality and are kept
  as plain \<open>string\<close>s; timestamps are points on the time line, kept as integers.
\<close>

type_synonym jsstring = "16 word list"
type_synonym uuid = string
type_synonym timestamptz = int

definition js :: "string \<Rightarrow> jsstring" where
  "js s = map (\<lambda>c. of_nat (of_char c)) s"

text \<open>
  \<open>String.prototype.trim\<close> removes leading and trailing WhiteSpace and LineTerminator
  code units (ECMAScript: TAB, LF, VT, FF, CR, SP, NBSP, the Unicode space separators,
  LS, PS and the byte order mark).
\<close>

definition isWhiteSpace :: "16 word \<Rightarrow> bool" where
  "isWhiteSpace c =
     (c \<in> {0x9, 0xA, 0xB, 0xC, 0xD, 0x20, 0xA0, 0x1680, 0x2028, 0x2029, 0x202F, 0x205F,
            0x3000, 0xFEFF}
      \<or> (0x2000 \<le> c \<and> c \<le> 0x200A))"

definition trim :: "jsstring \<Rightarrow> jsstring" where
  "trim s = rev (dropWhile isWhiteSpace (rev (dropWhile isWhiteSpace s)))"

text \<open>Truthiness of a string: only the empty string is falsy.\<close>

definition truthy_str :: "jsstring \<Rightarrow> bool" where
  "truthy_str s = (s \<noteq> [])"

section \<open>The relational schema\<close>

text \<open>
  The four tables of \<open>complete-database-setup.sql\<close> (the likes and comments tables are
  declared identically in the interactions script). A table is the list of its rows in
  physical order. \<open>auth.users\<close> belongs to the auth provider; only the ids it holds
  matter, as the target of the foreign key of \<open>profiles.id\<close>.
\<close>

record profiles_row =
  profiles_id :: uuid
  profiles_name :: jsstring
  profiles_email :: jsstring
  profiles_bio :: "jsstring option"
  profiles_avatar_url :: "jsstring option"
  profiles_created_at :: timestamptz
  profiles_updated_at :: timestamptz

record posts_row =
  posts_id :: uuid
  posts_content :: jsstring
  posts_user_id :: uuid
  posts_created_at :: timestamptz
  posts_updated_at :: timestamptz

record likes_row =
  likes_id :: uuid
  likes_user_id :: uuid
  likes_post_id :: uuid
  likes_created_at :: timestamptz

record comments_row =
  comments_id :: uuid
  comments_content :: jsstring
  comments_user_id :: uuid
  comments_post_id :: uuid
  comments_created_at :: timestamptz
  comments_updated_at :: timestamptz

record store =
  auth_users :: "uuid list"
  public_profiles :: "profiles_row list"
  public_posts :: "posts_row list"
  public_likes :: "likes_row list"
  public_comments :: "comments_row list"

text \<open>
  What a statement can fail with: a violated unique index (SQLSTATE 23505) or foreign key
  (23503), each with the name of the constraint; a row refused by a row-level security
  policy of the named table (42501); and PostgREST's PGRST116, raised by \<open>.single()\<close>
  and \<open>.maybeSingle()\<close> when the number of rows is not the one asked for.
  The model covers a database that executes every statement it is sent; the loss of the
  connection is not part of it.
\<close>

datatype db_error =
    UniqueViolation string
  | ForeignKeyViolation string
  | RlsViolation string
  | PGRST116

text \<open>
  The environment of one statement: \<open>auth_uid\<close> is the value of \<open>auth.uid()\<close> (none
  for an anonymous session), \<open>gen_random_uuid\<close> and \<open>now\<close> are the values the column
  defaults produce for the row being inserted.
\<close>

record env =
  auth_uid :: "uuid option"
  gen_random_uuid :: uuid
  now :: timestamptz

subsection \<open>Likes\<close>

text \<open>
  \<open>INSERT INTO likes (post_id, user_id)\<close>. The policy "Users can insert their own likes"
  demands \<open>auth.uid() = user_id\<close>; the primary key and \<open>UNIQUE(user_id, post_id)\<close> are
  unique indexes; both foreign keys must find their target. A failed statement leaves
  the store as it was.
\<close>

definition insert_like :: "env \<Rightarrow> uuid \<Rightarrow> uuid \<Rightarrow> store \<Rightarrow> db_error + store" where
  "insert_like e pid uid s =
     (if auth_uid e \<noteq> Some uid then Inl (RlsViolation ''likes'')
      else if \<exists>l \<in> set (public_likes s). likes_id l = gen_random_uuid e
        then Inl (UniqueViolation ''likes_pkey'')
      else if \<exists>l \<in> set (public_likes s). likes_user_id l = uid \<and> likes_post_id l = pid
        then Inl (UniqueViolation ''likes_user_id_post_id_key'')
      else if \<not> (\<exists>p \<in> set (public_profiles s). profiles_id p = uid)
        then Inl (ForeignKeyViolation ''likes_user_id_fkey'')
      else if \<not> (\<exists>p \<in> set (public_posts s). posts_id p = pid)
        then Inl (ForeignKeyViolation ''likes_post_id_fkey'')
      else Inr (s\<lparr>public_likes := public_likes s @
             [\<lparr>likes_id = gen_random_uuid e, likes_user_id = uid, likes_post_id = pid,
               likes_created_at = now e\<rparr>]\<rparr>))"

text \<open>
  \<open>DELETE FROM likes WHERE post_id = .. AND user_id = ..\<close>. The policy "Users can delete
  their own likes" hides every row with \<open>auth.uid() \<noteq> user_id\<close> from the statement;
  deleting no row is not an error.
\<close>

definition delete_like :: "env \<Rightarrow> uuid \<Rightarrow> uuid \<Rightarrow> store \<Rightarrow> db_error + store" where
  "delete_like e pid uid s =
     Inr (s\<lparr>public_likes := filter (\<lambda>l. \<not> (likes_post_id l = pid \<and> likes_user_id l = uid
                                      \<and> auth_uid e = Some (likes_user_id l))) (public_likes s)\<rparr>)"

text \<open>\<open>SELECT id FROM likes WHERE post_id = .. AND user_id = ..\<close>; everyone may read.\<close>

definition select_like_ids :: "uuid \<Rightarrow> uuid \<Rightarrow> store \<Rightarrow> uuid list" where
  "select_like_ids pid uid s =
     map likes_id (filter (\<lambda>l. likes_post_id l = pid \<and> likes_user_id l = uid) (public_likes s))"

text \<open>\<open>.maybeSingle()\<close>: no row is \<open>null\<close>, one row is that row, more rows are an error.\<close>

fun maybeSingle :: "'a list \<Rightarrow> db_error + 'a option" where
  "maybeSingle [] = Inr None"
| "maybeSingle [x] = Inr (Some x)"
| "maybeSingle (x # y # zs) = Inl PGRST116"

text \<open>\<open>.single()\<close>: exactly one row, anything else is an error.\<close>

fun single :: "'a list \<Rightarrow> db_error + 'a" where
  "single [x] = Inr x"
| "single xs = Inl PGRST116"

text \<open>The derived aggregates: \<open>COUNT(*)\<close> of the rows of a post.\<close>

definition count_likes :: "store \<Rightarrow> uuid \<Rightarrow> nat" where
  "count_likes s pid = length (filter (\<lambda>l. likes_post_id l = pid) (public_likes s))"

definition count_comments :: "store \<Rightarrow> uuid \<Rightarrow> nat" where
  "count_comments s pid = length (filter (\<lambda>c. comments_post_id c = pid) (public_comments s))"

text \<open>The rows of one (user, post) pair, and the invariant the unique index keeps.\<close>

definition like_rows :: "store \<Rightarrow> uuid \<Rightarrow> uuid \<Rightarrow> likes_row list" where
  "like_rows s uid pid =
     filter (\<lambda>l. likes_user_id l = uid \<and> likes_post_id l = pid) (public_likes s)"

definition likes_unique :: "store \<Rightarrow> bool" where
  "likes_unique s = distinct (map (\<lambda>l. (likes_user_id l, likes_post_id l)) (public_likes s))"


subsection \<open>Posts\<close>

text \<open>
  \<open>INSERT INTO posts (content, user_id)\<close>, which hands the new row back. The policy
  "Users can insert their own posts" demands \<open>auth.uid() = user_id\<close>.
\<close>

definition insert_post :: "env \<Rightarrow> jsstring \<Rightarrow> uuid \<Rightarrow> store \<Rightarrow> db_error + posts_row \<times> store" where
  "insert_post e content uid s =
     (if auth_uid e \<noteq> Some uid then Inl (RlsViolation ''posts'')
      else if \<exists>p \<in> set (public_posts s). posts_id p = gen_random_uuid e
        then Inl (UniqueViolation ''posts_pkey'')
      else if \<not> (\<exists>p \<in> set (public_profiles s). profiles_id p = uid)
        then Inl (ForeignKeyViolation ''posts_user_id_fkey'')
      else
        (let row = \<lparr>posts_id = gen_random_uuid e, posts_content = content, posts_user_id = uid,
                     posts_created_at = now e, posts_updated_at = now e\<rparr>
         in Inr (row, s\<lparr>public_posts := public_posts s @ [row]\<rparr>)))"

text \<open>
  \<open>DELETE FROM posts WHERE id = ..\<close>. The policy "Users can delete their own posts" hides
  the rows of other users from the statement. For every row deleted,
  \<open>likes_post_id_fkey\<close> and \<open>comments_post_id_fkey\<close>, both \<open>ON DELETE CASCADE\<close>, delete
  the likes and comments rows that reference it; the cascade is not subject to the
  policies of those tables.
\<close>

definition delete_post :: "env \<Rightarrow> uuid \<Rightarrow> store \<Rightarrow> db_error + store" where
  "delete_post e pid s =
     (let deleted = filter (\<lambda>p. posts_id p = pid \<and> auth_uid e = Some (posts_user_id p))
                      (public_posts s)
      in Inr (s\<lparr>public_posts :=
                   filter (\<lambda>p. \<not> (posts_id p = pid \<and> auth_uid e = Some (posts_user_id p)))
                     (public_posts s),
                public_likes :=
                   filter (\<lambda>l. likes_post_id l \<notin> posts_id ` set deleted) (public_likes s),
                public_comments :=
                   filter (\<lambda>c. comments_post_id c \<notin> posts_id ` set deleted)
                     (public_comments s)\<rparr>))"

subsection \<open>Profiles\<close>

text \<open>
  \<open>INSERT INTO profiles (id, name, email, bio)\<close>, which hands the new row back. The policy
  "Users can insert their own profile" demands \<open>auth.uid() = id\<close>; \<open>id\<close> is the primary
  key and references \<open>auth.users\<close>.
\<close>

definition insert_profile ::
  "env \<Rightarrow> uuid \<Rightarrow> jsstring \<Rightarrow> jsstring \<Rightarrow> jsstring \<Rightarrow> store \<Rightarrow> db_error + profiles_row \<times> store" where
  "insert_profile e pid pname pemail pbio s =
     (if auth_uid e \<noteq> Some pid then Inl (RlsViolation ''profiles'')
      else if \<exists>p \<in> set (public_profiles s). profiles_id p = pid
        then Inl (UniqueViolation ''profiles_pkey'')
      else if pid \<notin> set (auth_users s)
        then Inl (ForeignKeyViolation ''profiles_id_fkey'')
      else
        (let row = \<lparr>profiles_id = pid, profiles_name = pname, profiles_email = pemail,
                     profiles_bio = Some pbio, profiles_avatar_url = None,
                     profiles_created_at = now e, profiles_updated_at = now e\<rparr>
         in Inr (row, s\<lparr>public_profiles := public_profiles s @ [row]\<rparr>)))"

subsection \<open>Queries with an embedded author\<close>

text \<open>
  The \<open>Profile\<close> a query embeds through \<open>posts_user_id_fkey\<close> or
  \<open>comments_user_id_fkey\<close>: the columns id, name, email, bio and avatar\_url of the
  profiles row the foreign key points to, \<open>null\<close> when there is none.
\<close>

record Profile =
  Profile_id :: uuid
  Profile_name :: jsstring
  Profile_email :: jsstring
  Profile_bio :: "jsstring option"
  Profile_avatar_url :: "jsstring option"

definition embed_profile :: "store \<Rightarrow> uuid \<Rightarrow> Profile option" where
  "embed_profile s uid =
     map_option
       (\<lambda>p. \<lparr>Profile_id = profiles_id p, Profile_name = profiles_name p,
              Profile_email = profiles_email p, Profile_bio = profiles_bio p,
              Profile_avatar_url = profiles_avatar_url p\<rparr>)
       (find (\<lambda>p. profiles_id p = uid) (public_profiles s))"

text \<open>
  \<open>ORDER BY created_at\<close>, ascending and descending. Postgres leaves the order of rows
  with equal keys open; the model fixes one.
\<close>

definition order_asc :: "('a \<Rightarrow> timestamptz) \<Rightarrow> 'a list \<Rightarrow> 'a list" where
  "order_asc key rows = sort_key key rows"

definition order_desc :: "('a \<Rightarrow> timestamptz) \<Rightarrow> 'a list \<Rightarrow> 'a list" where
  "order_desc key rows = rev (sort_key key rows)"

record Comment =
  Comment_id :: uuid
  Comment_content :: jsstring
  Comment_created_at :: timestamptz
  Comment_profiles :: "Profile option"

definition select_comment :: "store \<Rightarrow> comments_row \<Rightarrow> Comment" where
  "select_comment s c =
     \<lparr>Comment_id = comments_id c, Comment_content = comments_content c,
      Comment_created_at = comments_created_at c,
      Comment_profiles = embed_profile s (comments_user_id c)\<rparr>"

definition select_comments :: "store \<Rightarrow> uuid \<Rightarrow> Comment list" where
  "select_comments s pid =
     map (select_comment s)
       (order_asc comments_created_at
          (filter (\<lambda>c. comments_post_id c = pid) (public_comments s)))"

record Post =
  Post_id :: uuid
  Post_content :: jsstring
  Post_created_at :: timestamptz
  Post_profiles :: "Profile option"
  like_count :: nat
  comment_count :: nat

text \<open>
  One row of the posts query of the dashboard with the two counts the dashboard adds to
  it; \<open>count || 0\<close> is the count itself.
\<close>

definition select_post :: "store \<Rightarrow> posts_row \<Rightarrow> nat \<Rightarrow> nat \<Rightarrow> Post" where
  "select_post s p likeCount commentCount =
     \<lparr>Post_id = posts_id p, Post_content = posts_content p,
      Post_created_at = posts_created_at p,
      Post_profiles = embed_profile s (posts_user_id p),
      like_count = likeCount, comment_count = commentCount\<rparr>"

section \<open>The post-interactions component\<close>

text \<open>
  A toast: title, description, and whether it is the destructive variant. Where the
  source shows \<open>error.message\<close>, the description is the error itself.
\<close>

datatype description = Literal string | MessageOf db_error

datatype toast = Toast string description bool

text \<open>
  The state of one \<open>PostInteractions\<close> component, for the post \<open>postId\<close> and the profile
  \<open>currentUser\<close> it was given, with the toasts it has shown.
\<close>

record interactions =
  postId :: uuid
  currentUser_id :: uuid
  likeCount :: int
  commentCount :: int
  isLiked :: bool
  comments :: "Comment list"
  isLoadingLike :: bool
  isLoadingComments :: bool
  toasts :: "toast list"

text \<open>
  \<open>checkIfLiked\<close>: on an error the handler logs and returns, leaving \<open>isLiked\<close> as it
  was; otherwise \<open>isLiked\<close> becomes \<open>!!data\<close>.
\<close>

definition checkIfLiked :: "store \<Rightarrow> interactions \<Rightarrow> interactions" where
  "checkIfLiked s c =
     (case maybeSingle (select_like_ids (postId c) (currentUser_id c) s) of
        Inl err \<Rightarrow> c
      | Inr data \<Rightarrow> c\<lparr>isLiked := (data \<noteq> None)\<rparr>)"

text \<open>
  \<open>handleLike\<close>: nothing happens while a toggle is in flight. Otherwise the handler
  deletes or inserts according to \<open>isLiked\<close>; an error is thrown to the \<open>catch\<close>, which
  shows it and changes nothing else; \<open>finally\<close> clears \<open>isLoadingLike\<close>.
\<close>

definition handleLike :: "env \<Rightarrow> interactions \<times> store \<Rightarrow> interactions \<times> store" where
  "handleLike e cs =
     (let (c, s) = cs in
      if isLoadingLike c then (c, s)
      else if isLiked c then
        (case delete_like e (postId c) (currentUser_id c) s of
           Inl err \<Rightarrow>
             (c\<lparr>toasts := toasts c @ [Toast ''Error'' (MessageOf err) True],
                isLoadingLike := False\<rparr>, s)
         | Inr s' \<Rightarrow>
             (c\<lparr>isLiked := False, likeCount := max 0 (likeCount c - 1),
                toasts := toasts c @ [Toast ''Success'' (Literal ''Post unliked!'') False],
                isLoadingLike := False\<rparr>, s'))
      else
        (case insert_like e (postId c) (currentUser_id c) s of
           Inl err \<Rightarrow>
             (c\<lparr>toasts := toasts c @ [Toast ''Error'' (MessageOf err) True],
                isLoadingLike := False\<rparr>, s)
         | Inr s' \<Rightarrow>
             (c\<lparr>isLiked := True, likeCount := likeCount c + 1,
                toasts := toasts c @ [Toast ''Success'' (Literal ''Post liked!'') False],
                isLoadingLike := False\<rparr>, s')))"

text \<open>
  \<open>fetchComments\<close>: nothing happens while a fetch is in flight; otherwise the comments
  of the post, oldest first, replace the list.
\<close>

definition fetchComments :: "store \<Rightarrow> interactions \<Rightarrow> interactions" where
  "fetchComments s c =
     (if isLoadingComments c then c
      else c\<lparr>comments := select_comments s (postId c), isLoadingComments := False\<rparr>)"

section \<open>The dashboard\<close>

record dashboard =
  posts :: "Post list"
  newPost :: jsstring
  isLoading :: bool
  isLoadingPosts :: bool
  showCreatePost :: bool
  dashboard_toasts :: "toast list"

text \<open>
  \<open>fetchPosts\<close>: all posts, newest first, each with its embedded author; then, for each
  post, the number of its likes and of its comments.
\<close>

definition fetchPosts :: "store \<Rightarrow> dashboard \<Rightarrow> dashboard" where
  "fetchPosts s d =
     d\<lparr>posts :=
          map (\<lambda>p. select_post s p (count_likes s (posts_id p)) (count_comments s (posts_id p)))
            (order_desc posts_created_at (public_posts s)),
       isLoadingPosts := False\<rparr>"

text \<open>
  \<open>handleCreatePost\<close>, with the \<open>user\<close> of the auth hook. The handler returns at once
  when the text is empty after trimming or nobody is signed in. It inserts the text as
  typed, puts the new post with zero counts in front of the list and clears the form;
  an error of the insert is shown and changes nothing else.
\<close>

definition handleCreatePost ::
  "env \<Rightarrow> profiles_row option \<Rightarrow> dashboard \<times> store \<Rightarrow> dashboard \<times> store" where
  "handleCreatePost e user ds =
     (let (d, s) = ds in
      if \<not> truthy_str (trim (newPost d)) then (d, s)
      else case user of
        None \<Rightarrow> (d, s)
      | Some u \<Rightarrow>
          (case insert_post e (newPost d) (profiles_id u) s of
             Inl err \<Rightarrow>
               (d\<lparr>dashboard_toasts :=
                     dashboard_toasts d @ [Toast ''Error'' (MessageOf err) True],
                  isLoading := False\<rparr>, s)
           | Inr (row, s') \<Rightarrow>
               (d\<lparr>posts := select_post s' row 0 0 # posts d, newPost := [],
                  showCreatePost := False,
                  dashboard_toasts := dashboard_toasts d @
                     [Toast ''Success'' (Literal ''Post created successfully!'') False],
                  isLoading := False\<rparr>, s')))"

section \<open>The auth hook\<close>

text \<open>
  The user object of the auth provider, as far as \<open>handleUserSession\<close> reads it: the
  id, the email (which may be missing) and, in the metadata given at signup, an optional
  name and bio.
\<close>

record metadata =
  metadata_name :: "jsstring option"
  metadata_bio :: "jsstring option"

record authUser =
  authUser_id :: uuid
  authUser_email :: "jsstring option"
  user_metadata :: "metadata option"

text \<open>
  \<open>s.split(sep)\<close> for a separator of one code unit, and \<open>xs[i]\<close>, which is
  \<open>undefined\<close> out of range.
\<close>

fun split_on :: "16 word \<Rightarrow> jsstring \<Rightarrow> jsstring list" where
  "split_on sep [] = [[]]"
| "split_on sep (c # cs) =
     (if c = sep then [] # split_on sep cs
      else (case split_on sep cs of
              [] \<Rightarrow> [[c]]
            | piece # pieces \<Rightarrow> (c # piece) # pieces))"

definition at_index :: "'a list \<Rightarrow> nat \<Rightarrow> 'a option" where
  "at_index xs i = (if i < length xs then Some (xs ! i) else None)"

text \<open>
  \<open>a || b\<close> on strings that may be \<open>undefined\<close>: \<open>a\<close> when it is truthy, that is a
  non-empty string, otherwise \<open>b\<close>; and the same with a string literal for \<open>b\<close>.
\<close>

definition js_or :: "jsstring option \<Rightarrow> jsstring option \<Rightarrow> jsstring option" where
  "js_or a b = (case a of None \<Rightarrow> b | Some x \<Rightarrow> if truthy_str x then Some x else b)"

definition js_or_literal :: "jsstring option \<Rightarrow> jsstring \<Rightarrow> jsstring" where
  "js_or_literal a b = (case a of None \<Rightarrow> b | Some x \<Rightarrow> if truthy_str x then x else b)"

text \<open>The fields of \<open>newProfile\<close>.\<close>

definition newProfile_name :: "authUser \<Rightarrow> jsstring" where
  "newProfile_name u =
     js_or_literal
       (js_or (Option.bind (user_metadata u) metadata_name)
              (Option.bind (authUser_email u) (\<lambda>email. at_index (split_on 0x40 email) 0)))
       (js ''User'')"

definition newProfile_email :: "authUser \<Rightarrow> jsstring" where
  "newProfile_email u = js_or_literal (authUser_email u) []"

definition newProfile_bio :: "authUser \<Rightarrow> jsstring" where
  "newProfile_bio u = js_or_literal (Option.bind (user_metadata u) metadata_bio) []"

record auth_hook =
  user :: "profiles_row option"
  auth_toasts :: "toast list"

text \<open>
  \<open>handleUserSession\<close>: look the profile up by the id of the user; when \<open>.single()\<close>
  reports PGRST116, insert \<open>newProfile\<close> and take the row handed back; show a toast and
  return when the insert or the lookup fails otherwise; set \<open>user\<close> to the profile.
\<close>

definition handleUserSession :: "env \<Rightarrow> authUser \<Rightarrow> auth_hook \<times> store \<Rightarrow> auth_hook \<times> store" where
  "handleUserSession e u hs =
     (let (h, s) = hs in
      case single (filter (\<lambda>p. profiles_id p = authUser_id u) (public_profiles s)) of
        Inl profileError \<Rightarrow>
          if profileError = PGRST116 then
            (case insert_profile e (authUser_id u) (newProfile_name u) (newProfile_email u)
                    (newProfile_bio u) s of
               Inl insertError \<Rightarrow>
                 (h\<lparr>auth_toasts := auth_toasts h @
                      [Toast ''Error'' (Literal ''Failed to create profile. Please try again.'')
                         True]\<rparr>, s)
             | Inr (createdProfile, s') \<Rightarrow> (h\<lparr>user := Some createdProfile\<rparr>, s'))
          else
            (h\<lparr>auth_toasts := auth_toasts h @
                 [Toast ''Error'' (Literal ''Failed to load profile. Please refresh the page.'')
                    True]\<rparr>, s)
      | Inr profile \<Rightarrow> (h\<lparr>user := Some profile\<rparr>, s))"

subsection \<open>The signup triggers\<close>

text \<open>
  The name the trigger function \<open>handle_new_user\<close> gives the profile of a new row of
  \<open>auth.users\<close>, \<open>NULL\<close> being \<open>None\<close>. In \<open>complete-database-setup.sql\<close> it is
  \<open>COALESCE(name, split_part(email, '@', 1))\<close>, in \<open>supabase-setup.sql\<close> it is
  \<open>COALESCE(name, 'New User')\<close>; the bio is \<open>COALESCE(bio, '')\<close> in both.
\<close>

definition coalesce :: "'a option \<Rightarrow> 'a option \<Rightarrow> 'a option" where
  "coalesce a b = (case a of None \<Rightarrow> b | Some x \<Rightarrow> Some x)"

definition split_part_1 :: "16 word \<Rightarrow> jsstring \<Rightarrow> jsstring" where
  "split_part_1 sep s = takeWhile (\<lambda>c. c \<noteq> sep) s"

definition handle_new_user_name :: "authUser \<Rightarrow> jsstring option" where
  "handle_new_user_name NEW =
     coalesce (Option.bind (user_metadata NEW) metadata_name)
              (map_option (split_part_1 0x40) (authUser_email NEW))"

definition handle_new_user_name_supabase_setup :: "authUser \<Rightarrow> jsstring option" where
  "handle_new_user_name_supabase_setup NEW =
     coalesce (Option.bind (user_metadata NEW) metadata_name) (Some (js ''New User''))"

definition handle_new_user_bio :: "authUser \<Rightarrow> jsstring option" where
  "handle_new_user_bio NEW =
     coalesce (Option.bind (user_metadata NEW) metadata_bio) (Some [])"

subsection \<open>The defaults, in the words of the specification\<close>

text \<open>
  The local part of an email is what precedes its first \<open>@\<close>. The name of a new profile
  is the signup name when there is one and it is not empty, otherwise the local part of
  the email when there is an email and its local part is not empty, otherwise a
  placeholder; the bio is the signup bio when there is one, otherwise the empty string.
\<close>

definition local_part :: "jsstring \<Rightarrow> jsstring" where
  "local_part email = takeWhile (\<lambda>c. c \<noteq> 0x40) email"

definition default_name :: "jsstring \<Rightarrow> jsstring option \<Rightarrow> jsstring option \<Rightarrow> jsstring" where
  "default_name placeholder signup_name email =
     (case signup_name of
        Some n \<Rightarrow>
          if n \<noteq> [] then n
          else (case email of
                  Some m \<Rightarrow> if local_part m \<noteq> [] then local_part m else placeholder
                | None \<Rightarrow> placeholder)
      | None \<Rightarrow>
          (case email of
             Some m \<Rightarrow> if local_part m \<noteq> [] then local_part m else placeholder
           | None \<Rightarrow> placeholder))"

definition default_bio :: "jsstring option \<Rightarrow> jsstring" where
  "default_bio signup_bio = (case signup_bio of Some b \<Rightarrow> b | None \<Rightarrow> [])"

section \<open>The REST server\<close>

text \<open>
  \<open>server.js\<close> keeps its users and posts in two arrays of plain objects and reads its
  input from parsed JSON. A value is \<open>undefined\<close>, \<open>null\<close>, a boolean, a number (an
  integer here), a string, an array or an object; an object is the list of its
  properties.
\<close>

datatype jsval =
    JUndefined
  | JNull
  | JBool bool
  | JNum int
  | JStr jsstring
  | JArr "jsval list"
  | JObj "(string \<times> jsval) list"

type_synonym jsobj = "(string \<times> jsval) list"

text \<open>Reading a property: \<open>undefined\<close> when the object has none of that name.\<close>

definition property :: "jsobj \<Rightarrow> string \<Rightarrow> jsval" where
  "property obj k = (case map_of obj k of None \<Rightarrow> JUndefined | Some v \<Rightarrow> v)"

definition field :: "jsval \<Rightarrow> string \<Rightarrow> jsval" where
  "field v k = (case v of JObj obj \<Rightarrow> property obj k | _ \<Rightarrow> JUndefined)"

fun truthy :: "jsval \<Rightarrow> bool" where
  "truthy JUndefined = False"
| "truthy JNull = False"
| "truthy (JBool b) = b"
| "truthy (JNum n) = (n \<noteq> 0)"
| "truthy (JStr s) = (s \<noteq> [])"
| "truthy (JArr xs) = True"
| "truthy (JObj obj) = True"

text \<open>
  \<open>a === b\<close> between a stored value and a value of the request at hand. Primitives are
  compared by value. Arrays and objects are compared by identity, and what a request
  carries is parsed afresh, so it is never the array or object stored earlier.
\<close>

fun strict_eq :: "jsval \<Rightarrow> jsval \<Rightarrow> bool" where
  "strict_eq (JArr xs) b = False"
| "strict_eq (JObj obj) b = False"
| "strict_eq a (JArr ys) = False"
| "strict_eq a (JObj obj) = False"
| "strict_eq a b = (a = b)"

text \<open>\<open>const { k: _, ...rest } = obj\<close>: every property but \<open>k\<close>.\<close>

definition omit :: "string \<Rightarrow> jsobj \<Rightarrow> jsobj" where
  "omit k obj = filter (\<lambda>kv. fst kv \<noteq> k) obj"

text \<open>
  What one request takes from outside: the id and the time stamp it generates, and the
  functions of the bcrypt and JWT libraries. \<open>bcrypt.hash\<close> and \<open>bcrypt.compare\<close> reject
  an argument that is not a string; \<open>jwt.verify\<close> yields the payload of a valid token.
\<close>

record ext =
  uuidv4 :: jsstring
  toISOString :: jsstring
  bcrypt_hash :: "jsstring \<Rightarrow> jsstring"
  bcrypt_compare :: "jsstring \<Rightarrow> jsstring \<Rightarrow> bool"
  jwt_sign :: "jsobj \<Rightarrow> jsstring"
  jwt_verify :: "jsstring \<Rightarrow> jsobj option"

record server =
  users :: "jsobj list"
  server_posts :: "jsobj list"

record response =
  status :: nat
  body :: jsval

definition message :: "nat \<Rightarrow> string \<Rightarrow> response" where
  "message code text = \<lparr>status = code, body = JObj [(''message'', JStr (js text))]\<rparr>"

text \<open>
  \<open>authenticateToken\<close>: the token is the second piece of the authorization header, split
  at spaces; 401 without one, 403 when it does not verify, otherwise the payload becomes
  \<open>req.user\<close>.
\<close>

definition authenticateToken :: "ext \<Rightarrow> jsstring option \<Rightarrow> response + jsobj" where
  "authenticateToken x authHeader =
     (case Option.bind authHeader
             (\<lambda>h. if truthy_str h then at_index (split_on 0x20 h) 1 else Some h) of
        None \<Rightarrow> Inl (message 401 ''Access token required'')
      | Some token \<Rightarrow>
          if \<not> truthy_str token then Inl (message 401 ''Access token required'')
          else (case jwt_verify x token of
                  None \<Rightarrow> Inl (message 403 ''Invalid token'')
                | Some payload \<Rightarrow> Inr payload))"

definition getUserById :: "server \<Rightarrow> jsval \<Rightarrow> jsobj option" where
  "getUserById db uid = find (\<lambda>u. strict_eq (property u ''id'') uid) (users db)"

text \<open>
  \<open>POST /api/auth/register\<close>. An email already in use is answered with 400 before
  anything else happens. A password that is not a string makes \<open>bcrypt.hash\<close> reject,
  which the handler answers with 500.
\<close>

definition register :: "ext \<Rightarrow> jsobj \<Rightarrow> server \<Rightarrow> response \<times> server" where
  "register x reqBody db =
     (let name = property reqBody ''name''; email = property reqBody ''email'';
          password = property reqBody ''password''; bio = property reqBody ''bio''
      in case find (\<lambda>u. strict_eq (property u ''email'') email) (users db) of
           Some existingUser \<Rightarrow> (message 400 ''User already exists'', db)
         | None \<Rightarrow>
             (case password of
                JStr pw \<Rightarrow>
                  (let newUser =
                         [(''id'', JStr (uuidv4 x)), (''name'', name), (''email'', email),
                          (''password'', JStr (bcrypt_hash x pw)),
                          (''bio'', if truthy bio then bio else JStr []),
                          (''createdAt'', JStr (toISOString x))];
                       token = jwt_sign x [(''userId'', JStr (uuidv4 x))]
                   in (\<lparr>status = 201,
                        body = JObj [(''token'', JStr token),
                                     (''user'', JObj (omit ''password'' newUser))]\<rparr>,
                       db\<lparr>users := users db @ [newUser]\<rparr>))
              | _ \<Rightarrow> (message 500 ''Server error'', db)))"

text \<open>\<open>POST /api/auth/login\<close>.\<close>

definition login :: "ext \<Rightarrow> jsobj \<Rightarrow> server \<Rightarrow> response \<times> server" where
  "login x reqBody db =
     (let email = property reqBody ''email''; password = property reqBody ''password''
      in case find (\<lambda>u. strict_eq (property u ''email'') email) (users db) of
           None \<Rightarrow> (message 400 ''Invalid credentials'', db)
         | Some u \<Rightarrow>
             (case (password, property u ''password'') of
                (JStr pw, JStr hashed) \<Rightarrow>
                  if bcrypt_compare x pw hashed then
                    (\<lparr>status = 200,
                      body = JObj [(''token'', JStr (jwt_sign x [(''userId'', property u ''id'')])),
                                   (''user'', JObj (omit ''password'' u))]\<rparr>, db)
                  else (message 400 ''Invalid credentials'', db)
              | _ \<Rightarrow> (message 500 ''Server error'', db)))"

text \<open>\<open>GET /api/users/:id\<close>, behind \<open>authenticateToken\<close>.\<close>

definition get_user :: "ext \<Rightarrow> jsstring option \<Rightarrow> jsstring \<Rightarrow> server \<Rightarrow> response" where
  "get_user x authHeader uid db =
     (case authenticateToken x authHeader of
        Inl refused \<Rightarrow> refused
      | Inr reqUser \<Rightarrow>
          (case getUserById db (JStr uid) of
             None \<Rightarrow> message 404 ''User not found''
           | Some u \<Rightarrow> \<lparr>status = 200, body = JObj (omit ''password'' u)\<rparr>))"

text \<open>
  \<open>POST /api/posts\<close>, behind \<open>authenticateToken\<close>. The content is stored as it comes.
  The post is pushed before its author is looked up; reading the fields of a missing
  author throws, which the handler answers with 500.
\<close>

definition create_post :: "ext \<Rightarrow> jsstring option \<Rightarrow> jsobj \<Rightarrow> server \<Rightarrow> response \<times> server" where
  "create_post x authHeader reqBody db =
     (case authenticateToken x authHeader of
        Inl refused \<Rightarrow> (refused, db)
      | Inr reqUser \<Rightarrow>
          (let content = property reqBody ''content''; userId = property reqUser ''userId'';
               post = [(''id'', JStr (uuidv4 x)), (''content'', content),
                       (''authorId'', userId), (''createdAt'', JStr (toISOString x))];
               db' = db\<lparr>server_posts := server_posts db @ [post]\<rparr>
           in case getUserById db' userId of
                None \<Rightarrow> (message 500 ''Server error'', db')
              | Some author \<Rightarrow>
                  (\<lparr>status = 201,
                    body = JObj (post @
                      [(''author'', JObj [(''id'', property author ''id''),
                                         (''name'', property author ''name''),
                                         (''email'', property author ''email''),
                                         (''bio'', property author ''bio'')])])\<rparr>, db')))"

text \<open>Whether a value is an object with a property named \<open>password\<close>.\<close>

definition has_password :: "jsval \<Rightarrow> bool" where
  "has_password v = (case v of JObj obj \<Rightarrow> ''password'' \<in> fst ` set obj | _ \<Rightarrow> False)"

text \<open>The arrays the server starts with: the demo user and the demo post.\<close>

definition demo_user :: "jsstring \<Rightarrow> jsobj" where
  "demo_user started =
     [(''id'', JStr (js ''1'')), (''name'', JStr (js ''Demo User'')),
      (''email'', JStr (js ''demo@example.com'')),
      (''password'', JStr (js ''$2a$10$92IXUNpkjO0rOQ5byMi.Ye4oKoEa3Ro9llC/.og/at2.uheWG/igi'')),
      (''bio'', JStr (js
         ''Full Stack Developer passionate about creating amazing user experiences.'')),
      (''createdAt'', JStr started)]"

definition demo_post :: "jsstring \<Rightarrow> jsobj" where
  "demo_post started =
     [(''id'', JStr (js ''1'')),
      (''content'', JStr (js
         ''Welcome to ConnectHub! This is a demo post to show how the platform works. Feel free to create your own posts and connect with other professionals.'')),
      (''authorId'', JStr (js ''1'')), (''createdAt'', JStr started)]"

definition initial_server :: "jsstring \<Rightarrow> server" where
  "initial_server started = \<lparr>users = [demo_user started], server_posts = [demo_post started]\<rparr>"

section \<open>A scenario\<close>

text \<open>
  The profiles of Alice and Bob and Alice's post "Hello world", before anybody has liked
  or commented on it; the session of a signed-in user; and a component showing the post
  to Bob.
\<close>

definition session :: "uuid \<Rightarrow> uuid \<Rightarrow> timestamptz \<Rightarrow> env" where
  "session uid fresh t = \<lparr>auth_uid = Some uid, gen_random_uuid = fresh, now = t\<rparr>"

definition member :: "uuid \<Rightarrow> string \<Rightarrow> string \<Rightarrow> profiles_row" where
  "member uid pname pemail =
     \<lparr>profiles_id = uid, profiles_name = js pname, profiles_email = js pemail,
      profiles_bio = Some [], profiles_avatar_url = None,
      profiles_created_at = 0, profiles_updated_at = 0\<rparr>"

definition hello :: posts_row where
  "hello = \<lparr>posts_id = ''p1'', posts_content = js ''Hello world'', posts_user_id = ''alice'',
            posts_created_at = 10, posts_updated_at = 10\<rparr>"

definition scenario :: store where
  "scenario =
     \<lparr>auth_users = [''alice'', ''bob''],
      public_profiles = [member ''alice'' ''Alice'' ''alice@example.com'',
                         member ''bob'' ''Bob'' ''bob@example.com''],
      public_posts = [hello], public_likes = [], public_comments = []\<rparr>"

definition bobs_like :: likes_row where
  "bobs_like = \<lparr>likes_id = ''l1'', likes_user_id = ''bob'', likes_post_id = ''p1'',
                likes_created_at = 20\<rparr>"

definition bobs_comment :: comments_row where
  "bobs_comment = \<lparr>comments_id = ''c1'', comments_content = js ''Nice!'',
                   comments_user_id = ''bob'', comments_post_id = ''p1'',
                   comments_created_at = 30, comments_updated_at = 30\<rparr>"

definition bobs_view :: interactions where
  "bobs_view =
     \<lparr>postId = ''p1'', currentUser_id = ''bob'', likeCount = 0, commentCount = 0,
      isLiked = False, comments = [], isLoadingLike = False, isLoadingComments = False,
      toasts = []\<rparr>"

text \<open>
  A busier store: Bob has posted too, after Alice; Bob has liked Alice's post; Bob and
  then, with an earlier timestamp but stored later, Alice have commented on it. And a
  dashboard that has not fetched anything yet.
\<close>

definition bobs_post :: posts_row where
  "bobs_post = \<lparr>posts_id = ''p2'', posts_content = js ''Hi Alice'', posts_user_id = ''bob'',
                posts_created_at = 15, posts_updated_at = 15\<rparr>"

definition alices_comment :: comments_row where
  "alices_comment = \<lparr>comments_id = ''c2'', comments_content = js ''Welcome'',
                     comments_user_id = ''alice'', comments_post_id = ''p1'',
                     comments_created_at = 25, comments_updated_at = 25\<rparr>"

definition busy :: store where
  "busy = scenario\<lparr>public_posts := [hello, bobs_post], public_likes := [bobs_like],
                    public_comments := [bobs_comment, alices_comment]\<rparr>"

definition fresh_dashboard :: dashboard where
  "fresh_dashboard =
     \<lparr>posts = [], newPost = [], isLoading = False, isLoadingPosts = True,
      showCreatePost = False, dashboard_toasts = []\<rparr>"

text \<open>
  Carol has signed up with a name and an email; Dave's account has an email only; Erin's
  has neither. None of them has a profile yet.
\<close>

definition carol :: authUser where
  "carol = \<lparr>authUser_id = ''carol'', authUser_email = Some (js ''carol@example.com''),
            user_metadata = Some \<lparr>metadata_name = Some (js ''Carol C''),
                                   metadata_bio = Some (js ''Hiker'')\<rparr>\<rparr>"

definition dave :: authUser where
  "dave = \<lparr>authUser_id = ''dave'', authUser_email = Some (js ''dave@example.com''),
           user_metadata = Some \<lparr>metadata_name = None, metadata_bio = None\<rparr>\<rparr>"

definition erin :: authUser where
  "erin = \<lparr>authUser_id = ''erin'', authUser_email = None,
           user_metadata = Some \<lparr>metadata_name = None, metadata_bio = None\<rparr>\<rparr>"

definition newcomers :: store where
  "newcomers = scenario\<lparr>auth_users := [''alice'', ''bob'', ''carol'', ''dave'', ''erin'']\<rparr>"

definition signed_out :: auth_hook where
  "signed_out = \<lparr>user = None, auth_toasts = []\<rparr>"

text \<open>
  Stand-ins for the libraries: a hash that prefixes its input, a comparison that checks
  the prefix, a signer that always answers \<open>t\<close> and a verifier that takes \<open>t\<close> for a
  token of the demo user.
\<close>

definition libs :: ext where
  "libs =
     \<lparr>uuidv4 = js ''2'', toISOString = js ''2025-01-02T00:00:00.000Z'',
      bcrypt_hash = (\<lambda>pw. js ''#'' @ pw),
      bcrypt_compare = (\<lambda>pw hashed. hashed = js ''#'' @ pw),
      jwt_sign = (\<lambda>payload. js ''t''),
      jwt_verify = (\<lambda>token. if token = js ''t'' then Some [(''userId'', JStr (js ''1''))]
                              else None)\<rparr>"

text \<open>Carol's registration with the REST server, and the server after it.\<close>

definition carols_signup :: jsobj where
  "carols_signup =
     [(''name'', JStr (js ''Carol'')), (''email'', JStr (js ''carol@example.com'')),
      (''password'', JStr (js ''pw''))]"

definition carols_account :: jsobj where
  "carols_account =
     [(''id'', JStr (js ''2'')), (''name'', JStr (js ''Carol'')),
      (''email'', JStr (js ''carol@example.com'')), (''password'', JStr (js ''#pw'')),
      (''bio'', JStr []), (''createdAt'', JStr (js ''2025-01-02T00:00:00.000Z''))]"

definition with_carol :: server where
  "with_carol =
     \<lparr>users = [demo_user (js ''2025-01-01T00:00:00.000Z''), carols_account],
      server_posts = [demo_post (js ''2025-01-01T00:00:00.000Z'')]\<rparr>"

section \<open>Likes: the unique index\<close>

lemma insert_like_Inr:
  assumes "insert_like e pid uid s = Inr s'"
  shows "auth_uid e = Some uid"
    and "\<not> (\<exists>l \<in> set (public_likes s). likes_user_id l = uid \<and> likes_post_id l = pid)"
    and "\<exists>p \<in> set (public_profiles s). profiles_id p = uid"
    and "\<exists>p \<in> set (public_posts s). posts_id p = pid"
    and "s' = s\<lparr>public_likes := public_likes s @
             [\<lparr>likes_id = gen_random_uuid e, likes_user_id = uid, likes_post_id = pid,
               likes_created_at = now e\<rparr>]\<rparr>"
  using assms by (auto simp: insert_like_def split: if_splits)

lemma insert_like_keeps_unique:
  assumes "insert_like e pid uid s = Inr s'" and "likes_unique s"
  shows "likes_unique s'"
proof -
  have fresh: "(uid, pid) \<notin> set (map (\<lambda>l. (likes_user_id l, likes_post_id l)) (public_likes s))"
    using insert_like_Inr(2)[OF assms(1)] by auto
  show ?thesis
    using assms(2) fresh by (simp add: insert_like_Inr(5)[OF assms(1)] likes_unique_def)
qed

lemma delete_like_keeps_unique:
  assumes "delete_like e pid uid s = Inr s'" and "likes_unique s"
  shows "likes_unique s'"
  using assms by (auto simp: delete_like_def likes_unique_def distinct_map_filter)

lemma delete_post_keeps_unique:
  assumes "delete_post e pid s = Inr s'" and "likes_unique s"
  shows "likes_unique s'"
  using assms by (auto simp: delete_post_def Let_def likes_unique_def distinct_map_filter)

lemma like_rows_after_insert:
  assumes "insert_like e pid uid s = Inr s'"
  shows "like_rows s' uid pid =
           [\<lparr>likes_id = gen_random_uuid e, likes_user_id = uid, likes_post_id = pid,
             likes_created_at = now e\<rparr>]"
proof -
  have "filter (\<lambda>l. likes_user_id l = uid \<and> likes_post_id l = pid) (public_likes s) = []"
    using insert_like_Inr(2)[OF assms] by (auto simp: filter_empty_conv)
  then show ?thesis
    by (simp add: like_rows_def insert_like_Inr(5)[OF assms])
qed

lemma second_insert:
  assumes first: "insert_like e1 pid uid s = Inr s1"
      and same_user: "auth_uid e2 = Some uid"
      and fresh_id: "\<not> (\<exists>l \<in> set (public_likes s1). likes_id l = gen_random_uuid e2)"
  shows "insert_like e2 pid uid s1 = Inl (UniqueViolation ''likes_user_id_post_id_key'')"
proof -
  have "\<exists>l \<in> set (public_likes s1). likes_user_id l = uid \<and> likes_post_id l = pid"
    by (simp add: insert_like_Inr(5)[OF first])
  then show ?thesis
    using same_user fresh_id by (simp add: insert_like_def)
qed

text \<open>
  Claim C1. Once a user has liked a post (the first insert went through), a second insert
  of a like for the same user and post by that user fails on the unique index of
  \<open>(user_id, post_id)\<close>; \<open>handleLike\<close> shows that error and changes neither the store,
  which still holds exactly one row for the pair and so the same number of likes of the
  post, nor the displayed count.
\<close>

theorem duplicate_like_conflict:
  assumes first: "insert_like e1 pid uid s = Inr s1"
      and same_user: "auth_uid e2 = Some uid"
      and fresh_id: "\<not> (\<exists>l \<in> set (public_likes s1). likes_id l = gen_random_uuid e2)"
      and component: "postId c = pid" "currentUser_id c = uid" "\<not> isLoadingLike c" "\<not> isLiked c"
  shows "insert_like e2 pid uid s1 = Inl (UniqueViolation ''likes_user_id_post_id_key'')
       \<and> handleLike e2 (c, s1) =
           (c\<lparr>toasts := toasts c @
                 [Toast ''Error'' (MessageOf (UniqueViolation ''likes_user_id_post_id_key'')) True],
              isLoadingLike := False\<rparr>, s1)
       \<and> length (like_rows (snd (handleLike e2 (c, s1))) uid pid) = 1
       \<and> count_likes (snd (handleLike e2 (c, s1))) pid = count_likes s1 pid
       \<and> likeCount (fst (handleLike e2 (c, s1))) = likeCount c"
proof -
  note second = second_insert[OF first same_user fresh_id]
  have h: "handleLike e2 (c, s1) =
           (c\<lparr>toasts := toasts c @
                 [Toast ''Error'' (MessageOf (UniqueViolation ''likes_user_id_post_id_key'')) True],
              isLoadingLike := False\<rparr>, s1)"
    using component second by (simp add: handleLike_def)
  show ?thesis
    using second h like_rows_after_insert[OF first] by simp
qed


text \<open>The scenario: Bob likes Alice's post, then a second insert is attempted.\<close>

theorem duplicate_like_conflict_witness:
  "insert_like (session ''bob'' ''l2'' 21) ''p1'' ''bob'' (scenario\<lparr>public_likes := [bobs_like]\<rparr>)
     = Inl (UniqueViolation ''likes_user_id_post_id_key'')
   \<and> snd (handleLike (session ''bob'' ''l2'' 21)
            (bobs_view, scenario\<lparr>public_likes := [bobs_like]\<rparr>))
     = scenario\<lparr>public_likes := [bobs_like]\<rparr>
   \<and> count_likes (scenario\<lparr>public_likes := [bobs_like]\<rparr>) ''p1'' = 1
   \<and> likeCount (fst (handleLike (session ''bob'' ''l2'' 21)
            (bobs_view, scenario\<lparr>public_likes := [bobs_like]\<rparr>))) = 0"
proof -
  have first: "insert_like (session ''bob'' ''l1'' 20) ''p1'' ''bob'' scenario
                 = Inr (scenario\<lparr>public_likes := [bobs_like]\<rparr>)"
    by (simp add: insert_like_def session_def scenario_def member_def hello_def bobs_like_def)
  have same_user: "auth_uid (session ''bob'' ''l2'' 21) = Some ''bob''"
    by (simp add: session_def)
  have fresh_id: "\<not> (\<exists>l \<in> set (public_likes (scenario\<lparr>public_likes := [bobs_like]\<rparr>)).
                        likes_id l = gen_random_uuid (session ''bob'' ''l2'' 21))"
    by (simp add: session_def bobs_like_def)
  have component: "postId bobs_view = ''p1''" "currentUser_id bobs_view = ''bob''"
      "\<not> isLoadingLike bobs_view" "\<not> isLiked bobs_view"
    by (simp_all add: bobs_view_def)
  show ?thesis
    using duplicate_like_conflict[OF first same_user fresh_id component]
    by (simp add: count_likes_def bobs_like_def bobs_view_def)
qed

lemma distinct_map_filter_le1:
  "distinct (map f xs) \<Longrightarrow> length (filter (\<lambda>x. f x = k) xs) \<le> Suc 0"
proof (induction xs)
  case Nil
  then show ?case by simp
next
  case (Cons x xs)
  show ?case
  proof (cases "f x = k")
    case True
    with Cons.prems have "\<forall>y \<in> set xs. f y \<noteq> k" by (auto simp: image_iff)
    then have "filter (\<lambda>x. f x = k) xs = []" by (simp add: filter_empty_conv)
    with True show ?thesis by simp
  next
    case False
    with Cons show ?thesis by simp
  qed
qed

lemma select_like_ids_unique:
  assumes "likes_unique s"
  shows "length (select_like_ids pid uid s) \<le> Suc 0"
proof -
  have "filter (\<lambda>l. likes_post_id l = pid \<and> likes_user_id l = uid) (public_likes s)
        = filter (\<lambda>l. (likes_user_id l, likes_post_id l) = (uid, pid)) (public_likes s)"
    by (rule filter_cong) auto
  then show ?thesis
    using distinct_map_filter_le1[of "\<lambda>l. (likes_user_id l, likes_post_id l)" "public_likes s" "(uid, pid)"]
      assms by (simp add: select_like_ids_def likes_unique_def)
qed

lemma select_like_ids_empty_iff:
  "select_like_ids pid uid s = [] \<longleftrightarrow>
     \<not> (\<exists>l \<in> set (public_likes s). likes_user_id l = uid \<and> likes_post_id l = pid)"
  by (auto simp: select_like_ids_def filter_empty_conv)

text \<open>
  Claim C8. In a store that respects the unique index of likes, \<open>checkIfLiked\<close> sets
  \<open>isLiked\<close> to true exactly when a likes row of the user for the post exists, and the
  query behind it never fails: no row is an answer (\<open>null\<close>, hence false), not an error.
\<close>

theorem isLiked_presence:
  assumes "likes_unique s"
  shows "isLiked (checkIfLiked s c) =
           (\<exists>l \<in> set (public_likes s).
              likes_user_id l = currentUser_id c \<and> likes_post_id l = postId c)
       \<and> (\<exists>data. maybeSingle (select_like_ids (postId c) (currentUser_id c) s) = Inr data)"
proof (cases "select_like_ids (postId c) (currentUser_id c) s")
  case Nil
  then show ?thesis
    using select_like_ids_empty_iff[of "postId c" "currentUser_id c" s]
    by (simp add: checkIfLiked_def)
next
  case (Cons x xs)
  with select_like_ids_unique[OF assms, of "postId c" "currentUser_id c"]
  have one: "select_like_ids (postId c) (currentUser_id c) s = [x]" by simp
  then show ?thesis
    using select_like_ids_empty_iff[of "postId c" "currentUser_id c" s]
    by (simp add: checkIfLiked_def)
qed

text \<open>Bob's view of the post, with and without his like in the store.\<close>

theorem isLiked_presence_witness:
  "isLiked (checkIfLiked (scenario\<lparr>public_likes := [bobs_like]\<rparr>) bobs_view)
   \<and> \<not> isLiked (checkIfLiked scenario (bobs_view\<lparr>isLiked := True\<rparr>))"
proof -
  have u1: "likes_unique (scenario\<lparr>public_likes := [bobs_like]\<rparr>)"
    by (simp add: likes_unique_def)
  have u0: "likes_unique scenario"
    by (simp add: likes_unique_def scenario_def)
  show ?thesis
    using isLiked_presence[OF u1, of bobs_view]
      isLiked_presence[OF u0, of "bobs_view\<lparr>isLiked := True\<rparr>"]
    by (simp add: bobs_view_def bobs_like_def scenario_def)
qed

section \<open>Toggling a like\<close>

lemma delete_like_rows:
  assumes "auth_uid e = Some uid" and "delete_like e pid uid s = Inr s'"
  shows "like_rows s' uid pid = []"
  using assms by (auto simp: delete_like_def like_rows_def filter_empty_conv)

lemma handleLike_unlike:
  assumes "\<not> isLoadingLike c" and "isLiked c"
  shows "handleLike e (c, s) =
           (c\<lparr>isLiked := False, likeCount := max 0 (likeCount c - 1),
              toasts := toasts c @ [Toast ''Success'' (Literal ''Post unliked!'') False],
              isLoadingLike := False\<rparr>,
            s\<lparr>public_likes :=
                filter (\<lambda>l. \<not> (likes_post_id l = postId c \<and> likes_user_id l = currentUser_id c
                              \<and> auth_uid e = Some (likes_user_id l))) (public_likes s)\<rparr>)"
  using assms by (simp add: handleLike_def delete_like_def)

lemma handleLike_like_ok:
  assumes "\<not> isLoadingLike c" and "\<not> isLiked c"
      and "insert_like e (postId c) (currentUser_id c) s = Inr s'"
  shows "handleLike e (c, s) =
           (c\<lparr>isLiked := True, likeCount := likeCount c + 1,
              toasts := toasts c @ [Toast ''Success'' (Literal ''Post liked!'') False],
              isLoadingLike := False\<rparr>, s')"
  using assms by (simp add: handleLike_def)

lemma handleLike_like_failed:
  assumes "\<not> isLoadingLike c" and "\<not> isLiked c"
      and "insert_like e (postId c) (currentUser_id c) s = Inl err"
  shows "handleLike e (c, s) =
           (c\<lparr>toasts := toasts c @ [Toast ''Error'' (MessageOf err) True],
              isLoadingLike := False\<rparr>, s)"
  using assms by (simp add: handleLike_def)

text \<open>
  The two guards are false whenever no call is in flight: they start false and every call
  that finds them false leaves them false.
\<close>

lemma handleLike_leaves_idle:
  "\<not> isLoadingLike c \<Longrightarrow> \<not> isLoadingLike (fst (handleLike e (c, s)))"
  by (simp add: handleLike_def delete_like_def split: sum.splits)

lemma fetchComments_leaves_idle:
  "\<not> isLoadingComments c \<Longrightarrow> \<not> isLoadingComments (fetchComments s c)"
  by (simp add: fetchComments_def)

lemma handleLike_count_nonneg:
  assumes "0 \<le> likeCount c"
  shows "0 \<le> likeCount (fst (handleLike e (c, s)))"
  using assms by (simp add: handleLike_def delete_like_def split: sum.splits)

text \<open>
  Claim C4 as stated fails where the component has not yet learnt that the user likes the
  post: Bob's like is in the store, his view still has \<open>isLiked\<close> false. The insert
  fails on the unique index, no row is added and the displayed count is not raised.
\<close>

theorem toggle_like_counterexample:
  "\<not> isLoadingLike bobs_view
   \<and> \<not> isLiked bobs_view
   \<and> likeCount (fst (handleLike (session ''bob'' ''l2'' 21)
        (bobs_view, scenario\<lparr>public_likes := [bobs_like]\<rparr>))) \<noteq> likeCount bobs_view + 1
   \<and> snd (handleLike (session ''bob'' ''l2'' 21)
        (bobs_view, scenario\<lparr>public_likes := [bobs_like]\<rparr>)) = scenario\<lparr>public_likes := [bobs_like]\<rparr>"
  by (simp add: handleLike_def insert_like_def session_def bobs_view_def bobs_like_def)

text \<open>
  Claim C4, amended. Outside a toggle in flight: with \<open>isLiked\<close> true, \<open>handleLike\<close> sets
  the displayed count to \<open>max 0 (n - 1)\<close> and \<open>isLiked\<close> to false, and, the session being
  that of the current user, no likes row of the user for the post remains. With \<open>isLiked\<close>
  false, if the insert succeeds the store holds exactly the new row for the pair, the
  displayed count is \<open>n + 1\<close> and \<open>isLiked\<close> is true; if the insert fails, the error is
  shown and store and displayed count stay as they were. A displayed count that is not
  negative never becomes negative.
\<close>

theorem toggle_like:
  assumes idle: "\<not> isLoadingLike c"
  shows "(isLiked c \<longrightarrow>
            likeCount (fst (handleLike e (c, s))) = max 0 (likeCount c - 1)
          \<and> \<not> isLiked (fst (handleLike e (c, s)))
          \<and> (auth_uid e = Some (currentUser_id c) \<longrightarrow>
               like_rows (snd (handleLike e (c, s))) (currentUser_id c) (postId c) = []))
       \<and> (\<not> isLiked c \<longrightarrow>
            (case insert_like e (postId c) (currentUser_id c) s of
               Inr s' \<Rightarrow>
                 snd (handleLike e (c, s)) = s'
               \<and> like_rows s' (currentUser_id c) (postId c) =
                   [\<lparr>likes_id = gen_random_uuid e, likes_user_id = currentUser_id c,
                     likes_post_id = postId c, likes_created_at = now e\<rparr>]
               \<and> likeCount (fst (handleLike e (c, s))) = likeCount c + 1
               \<and> isLiked (fst (handleLike e (c, s)))
             | Inl err \<Rightarrow>
                 handleLike e (c, s) =
                   (c\<lparr>toasts := toasts c @ [Toast ''Error'' (MessageOf err) True],
                      isLoadingLike := False\<rparr>, s)))
       \<and> (0 \<le> likeCount c \<longrightarrow> 0 \<le> likeCount (fst (handleLike e (c, s))))"
proof (intro conjI impI)
  assume liked: "isLiked c"
  show "likeCount (fst (handleLike e (c, s))) = max 0 (likeCount c - 1)"
    by (simp add: handleLike_unlike[OF idle liked])
  show "\<not> isLiked (fst (handleLike e (c, s)))"
    by (simp add: handleLike_unlike[OF idle liked])
  assume "auth_uid e = Some (currentUser_id c)"
  then show "like_rows (snd (handleLike e (c, s))) (currentUser_id c) (postId c) = []"
    by (auto simp: handleLike_unlike[OF idle liked] like_rows_def filter_empty_conv)
next
  assume fresh: "\<not> isLiked c"
  show "case insert_like e (postId c) (currentUser_id c) s of
          Inr s' \<Rightarrow>
            snd (handleLike e (c, s)) = s'
          \<and> like_rows s' (currentUser_id c) (postId c) =
              [\<lparr>likes_id = gen_random_uuid e, likes_user_id = currentUser_id c,
                likes_post_id = postId c, likes_created_at = now e\<rparr>]
          \<and> likeCount (fst (handleLike e (c, s))) = likeCount c + 1
          \<and> isLiked (fst (handleLike e (c, s)))
        | Inl err \<Rightarrow>
            handleLike e (c, s) =
              (c\<lparr>toasts := toasts c @ [Toast ''Error'' (MessageOf err) True],
                 isLoadingLike := False\<rparr>, s)"
  proof (cases "insert_like e (postId c) (currentUser_id c) s")
    case (Inl err)
    then show ?thesis by (simp add: handleLike_like_failed[OF idle fresh Inl])
  next
    case (Inr s')
    then show ?thesis
      by (simp add: handleLike_like_ok[OF idle fresh Inr] like_rows_after_insert[OF Inr])
  qed
next
  assume "0 \<le> likeCount c"
  then show "0 \<le> likeCount (fst (handleLike e (c, s)))"
    by (rule handleLike_count_nonneg)
qed

text \<open>
  Bob likes the post, unlikes it, and unlikes a post he has not liked: the displayed
  count goes to 1, back to 0, and stays 0.
\<close>

theorem toggle_like_witness:
  "likeCount (fst (handleLike (session ''bob'' ''l1'' 20) (bobs_view, scenario))) = 1
   \<and> snd (handleLike (session ''bob'' ''l1'' 20) (bobs_view, scenario))
       = scenario\<lparr>public_likes := [bobs_like]\<rparr>
   \<and> likeCount (fst (handleLike (session ''bob'' ''l2'' 21)
        (bobs_view\<lparr>isLiked := True, likeCount := 1\<rparr>, scenario\<lparr>public_likes := [bobs_like]\<rparr>))) = 0
   \<and> like_rows (snd (handleLike (session ''bob'' ''l2'' 21)
        (bobs_view\<lparr>isLiked := True, likeCount := 1\<rparr>, scenario\<lparr>public_likes := [bobs_like]\<rparr>)))
        ''bob'' ''p1'' = []
   \<and> likeCount (fst (handleLike (session ''bob'' ''l2'' 21)
        (bobs_view\<lparr>isLiked := True\<rparr>, scenario))) = 0"
proof -
  have idle: "\<not> isLoadingLike bobs_view"
      "\<not> isLoadingLike (bobs_view\<lparr>isLiked := True, likeCount := 1\<rparr>)"
      "\<not> isLoadingLike (bobs_view\<lparr>isLiked := True\<rparr>)"
    by (simp_all add: bobs_view_def)
  have first: "insert_like (session ''bob'' ''l1'' 20) ''p1'' ''bob'' scenario
                 = Inr (scenario\<lparr>public_likes := [bobs_like]\<rparr>)"
    by (simp add: insert_like_def session_def scenario_def member_def hello_def bobs_like_def)
  show ?thesis
    using toggle_like[OF idle(1), of "session ''bob'' ''l1'' 20" scenario]
      toggle_like[OF idle(2), of "session ''bob'' ''l2'' 21" "scenario\<lparr>public_likes := [bobs_like]\<rparr>"]
      toggle_like[OF idle(3), of "session ''bob'' ''l2'' 21" scenario]
      first
    by (simp add: bobs_view_def session_def)
qed

section \<open>Deleting a post\<close>

lemma delete_post_Inr:
  assumes "delete_post e pid s = Inr s'"
  shows "public_likes s' =
           filter (\<lambda>l. likes_post_id l \<notin> posts_id `
                     set (filter (\<lambda>p. posts_id p = pid \<and> auth_uid e = Some (posts_user_id p))
                            (public_posts s))) (public_likes s)"
    and "public_comments s' =
           filter (\<lambda>c. comments_post_id c \<notin> posts_id `
                     set (filter (\<lambda>p. posts_id p = pid \<and> auth_uid e = Some (posts_user_id p))
                            (public_posts s))) (public_comments s)"
    and "public_posts s' =
           filter (\<lambda>p. \<not> (posts_id p = pid \<and> auth_uid e = Some (posts_user_id p)))
             (public_posts s)"
  using assms by (auto simp: delete_post_def Let_def)

text \<open>
  Claim C5. When the owner deletes the post with id \<open>pid\<close>, no likes row and no comments
  row with that \<open>post_id\<close> is left: both counts of the post are zero, and the post is gone.
\<close>

theorem delete_post_cascades:
  assumes owned: "\<exists>p \<in> set (public_posts s). posts_id p = pid \<and> auth_uid e = Some (posts_user_id p)"
      and deleted: "delete_post e pid s = Inr s'"
  shows "\<not> (\<exists>l \<in> set (public_likes s'). likes_post_id l = pid)
       \<and> \<not> (\<exists>c \<in> set (public_comments s'). comments_post_id c = pid)
       \<and> count_likes s' pid = 0
       \<and> count_comments s' pid = 0
       \<and> \<not> (\<exists>p \<in> set (public_posts s'). posts_id p = pid \<and> auth_uid e = Some (posts_user_id p))"
proof -
  from owned have hit: "pid \<in> posts_id `
      set (filter (\<lambda>p. posts_id p = pid \<and> auth_uid e = Some (posts_user_id p)) (public_posts s))"
    by (auto simp: image_iff)
  have l: "\<not> (\<exists>l \<in> set (public_likes s'). likes_post_id l = pid)"
    using hit by (auto simp: delete_post_Inr(1)[OF deleted])
  have c: "\<not> (\<exists>c \<in> set (public_comments s'). comments_post_id c = pid)"
    using hit by (auto simp: delete_post_Inr(2)[OF deleted])
  have p: "\<not> (\<exists>p \<in> set (public_posts s'). posts_id p = pid \<and> auth_uid e = Some (posts_user_id p))"
    by (auto simp: delete_post_Inr(3)[OF deleted])
  from l have "count_likes s' pid = 0"
    by (auto simp: count_likes_def filter_empty_conv)
  moreover from c have "count_comments s' pid = 0"
    by (auto simp: count_comments_def filter_empty_conv)
  ultimately show ?thesis using l c p by simp
qed

text \<open>Alice deletes her post, which Bob has liked and commented on.\<close>

theorem delete_post_cascades_witness:
  "delete_post (session ''alice'' ''x'' 40) ''p1''
      (scenario\<lparr>public_likes := [bobs_like], public_comments := [bobs_comment]\<rparr>)
     = Inr (scenario\<lparr>public_posts := [], public_likes := [], public_comments := []\<rparr>)
   \<and> count_likes (scenario\<lparr>public_posts := [], public_likes := [], public_comments := []\<rparr>) ''p1'' = 0
   \<and> count_comments (scenario\<lparr>public_posts := [], public_likes := [], public_comments := []\<rparr>) ''p1'' = 0"
proof -
  have owned: "\<exists>p \<in> set (public_posts
                  (scenario\<lparr>public_likes := [bobs_like], public_comments := [bobs_comment]\<rparr>)).
                 posts_id p = ''p1'' \<and> auth_uid (session ''alice'' ''x'' 40) = Some (posts_user_id p)"
    by (simp add: scenario_def hello_def session_def)
  have deleted: "delete_post (session ''alice'' ''x'' 40) ''p1''
      (scenario\<lparr>public_likes := [bobs_like], public_comments := [bobs_comment]\<rparr>)
     = Inr (scenario\<lparr>public_posts := [], public_likes := [], public_comments := []\<rparr>)"
    by (simp add: delete_post_def scenario_def hello_def session_def bobs_like_def
          bobs_comment_def)
  show ?thesis
    using delete_post_cascades[OF owned deleted] deleted by simp
qed

section \<open>Feeds: posts and comments in order\<close>

lemma embed_profile_found:
  assumes "\<exists>row \<in> set (public_profiles s). profiles_id row = uid"
  shows "\<exists>row \<in> set (public_profiles s). profiles_id row = uid \<and>
           embed_profile s uid =
             Some \<lparr>Profile_id = profiles_id row, Profile_name = profiles_name row,
                   Profile_email = profiles_email row, Profile_bio = profiles_bio row,
                   Profile_avatar_url = profiles_avatar_url row\<rparr>"
proof (cases "find (\<lambda>p. profiles_id p = uid) (public_profiles s)")
  case None
  with assms show ?thesis by (auto simp: find_None_iff)
next
  case (Some row)
  then have "row \<in> set (public_profiles s)" and "profiles_id row = uid"
    by (auto simp: find_Some_iff)
  with Some show ?thesis by (auto simp: embed_profile_def)
qed

lemma embed_profile_None:
  "embed_profile s uid = None \<longleftrightarrow> \<not> (\<exists>row \<in> set (public_profiles s). profiles_id row = uid)"
  by (auto simp: embed_profile_def find_None_iff)

lemma mset_order_desc: "mset (order_desc key rows) = mset rows"
  by (simp add: order_desc_def)

lemma mset_order_asc: "mset (order_asc key rows) = mset rows"
  by (simp add: order_asc_def)

lemma set_order_desc: "set (order_desc key rows) = set rows"
  by (simp add: order_desc_def)

lemma set_order_asc: "set (order_asc key rows) = set rows"
  by (simp add: order_asc_def)

lemma sorted_order_asc: "sorted_wrt (\<lambda>a b. key a \<le> key b) (order_asc key rows)"
  using sorted_sort_key[of key rows] by (simp add: order_asc_def sorted_wrt_map)

lemma sorted_order_desc: "sorted_wrt (\<lambda>a b. key b \<le> key a) (order_desc key rows)"
  using sorted_sort_key[of key rows] by (simp add: order_desc_def sorted_wrt_map sorted_wrt_rev)

text \<open>
  Claim C6. In every store, the list \<open>fetchPosts\<close> puts on the dashboard holds every
  posts row exactly once, newest first, each with the number of likes and of comments of
  that post and with the profile its \<open>user_id\<close> points to (present whenever such a
  profiles row exists, as the foreign key demands).
\<close>

theorem fetchPosts_newest_first:
  "mset (posts (fetchPosts s d)) =
     image_mset (\<lambda>p. select_post s p (count_likes s (posts_id p)) (count_comments s (posts_id p)))
       (mset (public_posts s))
   \<and> sorted_wrt (\<lambda>a b. Post_created_at b \<le> Post_created_at a) (posts (fetchPosts s d))
   \<and> (\<forall>r \<in> set (posts (fetchPosts s d)). \<exists>p \<in> set (public_posts s).
         Post_id r = posts_id p \<and> Post_content r = posts_content p
       \<and> Post_created_at r = posts_created_at p
       \<and> like_count r = count_likes s (posts_id p)
       \<and> comment_count r = count_comments s (posts_id p)
       \<and> Post_profiles r = embed_profile s (posts_user_id p)
       \<and> ((\<exists>row \<in> set (public_profiles s). profiles_id row = posts_user_id p) \<longrightarrow>
            (\<exists>row \<in> set (public_profiles s). profiles_id row = posts_user_id p \<and>
               Post_profiles r =
                 Some \<lparr>Profile_id = profiles_id row, Profile_name = profiles_name row,
                       Profile_email = profiles_email row, Profile_bio = profiles_bio row,
                       Profile_avatar_url = profiles_avatar_url row\<rparr>)))"
proof (intro conjI ballI)
  show "mset (posts (fetchPosts s d)) =
     image_mset (\<lambda>p. select_post s p (count_likes s (posts_id p)) (count_comments s (posts_id p)))
       (mset (public_posts s))"
    by (simp add: fetchPosts_def mset_order_desc)
next
  have "sorted_wrt (\<lambda>a b. posts_created_at b \<le> posts_created_at a)
          (order_desc posts_created_at (public_posts s))"
    by (rule sorted_order_desc)
  then show "sorted_wrt (\<lambda>a b. Post_created_at b \<le> Post_created_at a) (posts (fetchPosts s d))"
    by (simp add: fetchPosts_def sorted_wrt_map select_post_def)
next
  fix r assume "r \<in> set (posts (fetchPosts s d))"
  then obtain p where p: "p \<in> set (public_posts s)"
    and r: "r = select_post s p (count_likes s (posts_id p)) (count_comments s (posts_id p))"
    by (auto simp: fetchPosts_def set_order_desc)
  show "\<exists>p \<in> set (public_posts s).
         Post_id r = posts_id p \<and> Post_content r = posts_content p
       \<and> Post_created_at r = posts_created_at p
       \<and> like_count r = count_likes s (posts_id p)
       \<and> comment_count r = count_comments s (posts_id p)
       \<and> Post_profiles r = embed_profile s (posts_user_id p)
       \<and> ((\<exists>row \<in> set (public_profiles s). profiles_id row = posts_user_id p) \<longrightarrow>
            (\<exists>row \<in> set (public_profiles s). profiles_id row = posts_user_id p \<and>
               Post_profiles r =
                 Some \<lparr>Profile_id = profiles_id row, Profile_name = profiles_name row,
                       Profile_email = profiles_email row, Profile_bio = profiles_bio row,
                       Profile_avatar_url = profiles_avatar_url row\<rparr>))"
  proof (rule bexI[OF _ p], intro conjI impI)
    assume "\<exists>row \<in> set (public_profiles s). profiles_id row = posts_user_id p"
    from embed_profile_found[OF this]
    show "\<exists>row \<in> set (public_profiles s). profiles_id row = posts_user_id p \<and>
               Post_profiles r =
                 Some \<lparr>Profile_id = profiles_id row, Profile_name = profiles_name row,
                       Profile_email = profiles_email row, Profile_bio = profiles_bio row,
                       Profile_avatar_url = profiles_avatar_url row\<rparr>"
      by (simp add: r select_post_def)
  qed (simp_all add: r select_post_def)
qed

text \<open>
  Claim C7. Outside a fetch in flight, the list \<open>fetchComments\<close> puts in the component
  holds exactly the comments rows of its post, each once, oldest first, each with the
  profile its \<open>user_id\<close> points to.
\<close>

theorem fetchComments_oldest_first:
  assumes idle: "\<not> isLoadingComments c"
  shows "mset (comments (fetchComments s c)) =
     image_mset (select_comment s)
       (mset (filter (\<lambda>r. comments_post_id r = postId c) (public_comments s)))
   \<and> sorted_wrt (\<lambda>a b. Comment_created_at a \<le> Comment_created_at b) (comments (fetchComments s c))
   \<and> (\<forall>r \<in> set (comments (fetchComments s c)). \<exists>p \<in> set (public_comments s).
         comments_post_id p = postId c
       \<and> Comment_id r = comments_id p \<and> Comment_content r = comments_content p
       \<and> Comment_created_at r = comments_created_at p
       \<and> Comment_profiles r = embed_profile s (comments_user_id p)
       \<and> ((\<exists>row \<in> set (public_profiles s). profiles_id row = comments_user_id p) \<longrightarrow>
            (\<exists>row \<in> set (public_profiles s). profiles_id row = comments_user_id p \<and>
               Comment_profiles r =
                 Some \<lparr>Profile_id = profiles_id row, Profile_name = profiles_name row,
                       Profile_email = profiles_email row, Profile_bio = profiles_bio row,
                       Profile_avatar_url = profiles_avatar_url row\<rparr>)))"
proof (intro conjI ballI)
  show "mset (comments (fetchComments s c)) =
     image_mset (select_comment s)
       (mset (filter (\<lambda>r. comments_post_id r = postId c) (public_comments s)))"
    using idle by (simp add: fetchComments_def select_comments_def mset_order_asc)
next
  have "sorted_wrt (\<lambda>a b. comments_created_at a \<le> comments_created_at b)
          (order_asc comments_created_at
             (filter (\<lambda>r. comments_post_id r = postId c) (public_comments s)))"
    by (rule sorted_order_asc)
  then show "sorted_wrt (\<lambda>a b. Comment_created_at a \<le> Comment_created_at b)
               (comments (fetchComments s c))"
    using idle
    by (simp add: fetchComments_def select_comments_def sorted_wrt_map select_comment_def)
next
  fix r assume "r \<in> set (comments (fetchComments s c))"
  then obtain p where p: "p \<in> set (public_comments s)" and pp: "comments_post_id p = postId c"
    and r: "r = select_comment s p"
    using idle by (auto simp: fetchComments_def select_comments_def set_order_asc)
  show "\<exists>p \<in> set (public_comments s).
         comments_post_id p = postId c
       \<and> Comment_id r = comments_id p \<and> Comment_content r = comments_content p
       \<and> Comment_created_at r = comments_created_at p
       \<and> Comment_profiles r = embed_profile s (comments_user_id p)
       \<and> ((\<exists>row \<in> set (public_profiles s). profiles_id row = comments_user_id p) \<longrightarrow>
            (\<exists>row \<in> set (public_profiles s). profiles_id row = comments_user_id p \<and>
               Comment_profiles r =
                 Some \<lparr>Profile_id = profiles_id row, Profile_name = profiles_name row,
                       Profile_email = profiles_email row, Profile_bio = profiles_bio row,
                       Profile_avatar_url = profiles_avatar_url row\<rparr>))"
  proof (rule bexI[OF _ p], intro conjI impI)
    assume "\<exists>row \<in> set (public_profiles s). profiles_id row = comments_user_id p"
    from embed_profile_found[OF this]
    show "\<exists>row \<in> set (public_profiles s). profiles_id row = comments_user_id p \<and>
               Comment_profiles r =
                 Some \<lparr>Profile_id = profiles_id row, Profile_name = profiles_name row,
                       Profile_email = profiles_email row, Profile_bio = profiles_bio row,
                       Profile_avatar_url = profiles_avatar_url row\<rparr>"
      by (simp add: r select_comment_def)
  qed (simp_all add: r pp select_comment_def)
qed


text \<open>The feed of the busier store: Bob's later post first, then Alice's.\<close>

theorem fetchPosts_newest_first_witness:
  "sorted_wrt (\<lambda>a b. Post_created_at b \<le> Post_created_at a) (posts (fetchPosts busy fresh_dashboard))
   \<and> map Post_id (posts (fetchPosts busy fresh_dashboard)) = [''p2'', ''p1'']
   \<and> map like_count (posts (fetchPosts busy fresh_dashboard)) = [0, 1]
   \<and> map comment_count (posts (fetchPosts busy fresh_dashboard)) = [0, 2]
   \<and> map (map_option Profile_id \<circ> Post_profiles) (posts (fetchPosts busy fresh_dashboard))
        = [Some ''bob'', Some ''alice'']"
proof -
  have "posts (fetchPosts busy fresh_dashboard) =
          [select_post busy bobs_post 0 0, select_post busy hello 1 2]"
    by (simp add: fetchPosts_def order_desc_def busy_def scenario_def hello_def bobs_post_def
          bobs_like_def bobs_comment_def alices_comment_def count_likes_def count_comments_def
          numeral_2_eq_2)
  moreover have "embed_profile busy ''bob'' \<noteq> None" "embed_profile busy ''alice'' \<noteq> None"
    by (simp_all add: embed_profile_def busy_def scenario_def member_def)
  ultimately show ?thesis
    using fetchPosts_newest_first[of busy fresh_dashboard]
    by (auto simp: select_post_def hello_def bobs_post_def embed_profile_def busy_def
          scenario_def member_def)
qed

text \<open>
  The comments of Alice's post, Alice's earlier one first although it is stored last; and
  none for Bob's post.
\<close>

theorem fetchComments_oldest_first_witness:
  "sorted_wrt (\<lambda>a b. Comment_created_at a \<le> Comment_created_at b)
     (comments (fetchComments busy bobs_view))
   \<and> map Comment_id (comments (fetchComments busy bobs_view)) = [''c2'', ''c1'']
   \<and> map (map_option Profile_id \<circ> Comment_profiles) (comments (fetchComments busy bobs_view))
        = [Some ''alice'', Some ''bob'']
   \<and> comments (fetchComments busy (bobs_view\<lparr>postId := ''p2''\<rparr>)) = []"
proof -
  have idle: "\<not> isLoadingComments bobs_view" "\<not> isLoadingComments (bobs_view\<lparr>postId := ''p2''\<rparr>)"
    by (simp_all add: bobs_view_def)
  have "comments (fetchComments busy bobs_view) =
          [select_comment busy alices_comment, select_comment busy bobs_comment]"
    by (simp add: fetchComments_def select_comments_def order_asc_def busy_def scenario_def
          bobs_view_def bobs_comment_def alices_comment_def)
  moreover have "comments (fetchComments busy (bobs_view\<lparr>postId := ''p2''\<rparr>)) = []"
    by (simp add: fetchComments_def select_comments_def order_asc_def busy_def scenario_def
          bobs_view_def bobs_comment_def alices_comment_def)
  ultimately show ?thesis
    using fetchComments_oldest_first[OF idle(1), of busy]
      fetchComments_oldest_first[OF idle(2), of busy]
    by (auto simp: select_comment_def bobs_comment_def alices_comment_def embed_profile_def
          busy_def scenario_def member_def)
qed

section \<open>Creating the profile\<close>

lemma split_on_first:
  "\<exists>rest. split_on sep s = takeWhile (\<lambda>c. c \<noteq> sep) s # rest"
proof (induction s)
  case Nil
  show ?case by simp
next
  case (Cons c cs)
  then obtain rest where "split_on sep cs = takeWhile (\<lambda>c. c \<noteq> sep) cs # rest" by blast
  then show ?case by simp
qed

lemma at_index_split_on_0:
  "at_index (split_on sep s) 0 = Some (takeWhile (\<lambda>c. c \<noteq> sep) s)"
proof -
  obtain rest where "split_on sep s = takeWhile (\<lambda>c. c \<noteq> sep) s # rest"
    using split_on_first by blast
  then show ?thesis by (simp add: at_index_def)
qed

lemma newProfile_name_default:
  "newProfile_name u =
     default_name (js ''User'') (Option.bind (user_metadata u) metadata_name) (authUser_email u)"
  by (cases "Option.bind (user_metadata u) metadata_name"; cases "authUser_email u")
     (simp_all add: newProfile_name_def default_name_def js_or_literal_def js_or_def
        truthy_str_def local_part_def at_index_split_on_0)

lemma newProfile_bio_default:
  "newProfile_bio u = default_bio (Option.bind (user_metadata u) metadata_bio)"
  by (cases "Option.bind (user_metadata u) metadata_bio")
     (simp_all add: newProfile_bio_def default_bio_def js_or_literal_def truthy_str_def)

text \<open>
  The signup trigger of \<open>supabase-setup.sql\<close> is where the placeholder "New User" lives;
  it does not look at the email. The trigger of \<open>complete-database-setup.sql\<close> falls back
  to the email and has no placeholder.
\<close>

lemma handle_new_user_name_supabase_setup_placeholder:
  "Option.bind (user_metadata NEW) metadata_name = None \<Longrightarrow>
     handle_new_user_name_supabase_setup NEW = Some (js ''New User'')"
  by (simp add: handle_new_user_name_supabase_setup_def coalesce_def)

lemma handle_new_user_name_email:
  "Option.bind (user_metadata NEW) metadata_name = None \<Longrightarrow>
     handle_new_user_name NEW = map_option local_part (authUser_email NEW)"
  by (simp add: handle_new_user_name_def coalesce_def split_part_1_def local_part_def
        map_option_case split: option.splits)

lemma insert_profile_Inr:
  assumes "insert_profile e pid pname pemail pbio s = Inr (row, s')"
  shows "row = \<lparr>profiles_id = pid, profiles_name = pname, profiles_email = pemail,
                profiles_bio = Some pbio, profiles_avatar_url = None,
                profiles_created_at = now e, profiles_updated_at = now e\<rparr>"
    and "s' = s\<lparr>public_profiles := public_profiles s @ [row]\<rparr>"
  using assms by (auto simp: insert_profile_def Let_def split: if_splits)

lemma single_no_row:
  "\<not> (\<exists>x \<in> set xs. P x) \<Longrightarrow> single (filter P xs) = Inl PGRST116"
  by (simp add: filter_empty_conv[THEN iffD2])

text \<open>
  Claim C3 as stated fails on the placeholder. Erin's account has neither a signup name
  nor an email and no profile; the profile \<open>handleUserSession\<close> creates for her is named
  "User", not "New User".
\<close>

theorem new_profile_name_counterexample:
  "\<not> (\<exists>p \<in> set (public_profiles newcomers). profiles_id p = authUser_id erin)
   \<and> Option.bind (user_metadata erin) metadata_name = None
   \<and> authUser_email erin = None
   \<and> map_option profiles_name
        (user (fst (handleUserSession (session ''erin'' ''x'' 50) erin (signed_out, newcomers))))
       = Some (js ''User'')
   \<and> js ''User'' \<noteq> js ''New User''"
  by (simp add: handleUserSession_def insert_profile_def newProfile_name_def
        newProfile_email_def newProfile_bio_def js_or_literal_def js_or_def truthy_str_def
        newcomers_def scenario_def member_def erin_def session_def signed_out_def js_def
        Let_def)

text \<open>
  Claim C3, amended. For a user without a profile whose insert goes through,
  \<open>handleUserSession\<close> stores and adopts a profile with the id of the user, whose name
  is the signup name when that is a non-empty string, otherwise the part of the email
  before its first \<open>@\<close> when that is non-empty, otherwise "User", and whose bio is the
  signup bio when there is one, otherwise the empty string.
\<close>

theorem new_profile_defaults:
  assumes absent: "\<not> (\<exists>p \<in> set (public_profiles s). profiles_id p = authUser_id u)"
      and created: "insert_profile e (authUser_id u) (newProfile_name u) (newProfile_email u)
                      (newProfile_bio u) s = Inr (row, s')"
  shows "handleUserSession e u (h, s) = (h\<lparr>user := Some row\<rparr>, s')
       \<and> public_profiles s' = public_profiles s @ [row]
       \<and> profiles_id row = authUser_id u
       \<and> profiles_name row =
           default_name (js ''User'') (Option.bind (user_metadata u) metadata_name)
             (authUser_email u)
       \<and> profiles_bio row = Some (default_bio (Option.bind (user_metadata u) metadata_bio))"
proof -
  have lookup: "single (filter (\<lambda>p. profiles_id p = authUser_id u) (public_profiles s))
                  = Inl PGRST116"
    using absent by (rule single_no_row)
  have run: "handleUserSession e u (h, s) = (h\<lparr>user := Some row\<rparr>, s')"
    by (simp add: handleUserSession_def lookup created)
  show ?thesis
    using run insert_profile_Inr[OF created]
    by (simp add: newProfile_name_default newProfile_bio_default)
qed

text \<open>Carol signed up with a name and a bio; Dave's account has only an email.\<close>

theorem new_profile_defaults_witness:
  "map_option profiles_name
     (user (fst (handleUserSession (session ''carol'' ''x'' 50) carol (signed_out, newcomers))))
     = Some (js ''Carol C'')
   \<and> map_option profiles_bio
     (user (fst (handleUserSession (session ''carol'' ''x'' 50) carol (signed_out, newcomers))))
     = Some (Some (js ''Hiker''))
   \<and> map_option profiles_name
     (user (fst (handleUserSession (session ''dave'' ''x'' 50) dave (signed_out, newcomers))))
     = Some (js ''dave'')
   \<and> map_option profiles_bio
     (user (fst (handleUserSession (session ''dave'' ''x'' 50) dave (signed_out, newcomers))))
     = Some (Some [])"
proof -
  have absent:
      "\<not> (\<exists>p \<in> set (public_profiles newcomers). profiles_id p = authUser_id carol)"
      "\<not> (\<exists>p \<in> set (public_profiles newcomers). profiles_id p = authUser_id dave)"
    by (simp_all add: newcomers_def scenario_def member_def carol_def dave_def)
  have carol_row:
      "insert_profile (session ''carol'' ''x'' 50) (authUser_id carol) (newProfile_name carol)
         (newProfile_email carol) (newProfile_bio carol) newcomers
       = Inr (\<lparr>profiles_id = ''carol'', profiles_name = newProfile_name carol,
               profiles_email = newProfile_email carol,
               profiles_bio = Some (newProfile_bio carol), profiles_avatar_url = None,
               profiles_created_at = 50, profiles_updated_at = 50\<rparr>,
              newcomers\<lparr>public_profiles := public_profiles newcomers @
                [\<lparr>profiles_id = ''carol'', profiles_name = newProfile_name carol,
                  profiles_email = newProfile_email carol,
                  profiles_bio = Some (newProfile_bio carol), profiles_avatar_url = None,
                  profiles_created_at = 50, profiles_updated_at = 50\<rparr>]\<rparr>)"
    by (simp add: insert_profile_def session_def newcomers_def scenario_def member_def carol_def
          Let_def)
  have dave_row:
      "insert_profile (session ''dave'' ''x'' 50) (authUser_id dave) (newProfile_name dave)
         (newProfile_email dave) (newProfile_bio dave) newcomers
       = Inr (\<lparr>profiles_id = ''dave'', profiles_name = newProfile_name dave,
               profiles_email = newProfile_email dave,
               profiles_bio = Some (newProfile_bio dave), profiles_avatar_url = None,
               profiles_created_at = 50, profiles_updated_at = 50\<rparr>,
              newcomers\<lparr>public_profiles := public_profiles newcomers @
                [\<lparr>profiles_id = ''dave'', profiles_name = newProfile_name dave,
                  profiles_email = newProfile_email dave,
                  profiles_bio = Some (newProfile_bio dave), profiles_avatar_url = None,
                  profiles_created_at = 50, profiles_updated_at = 50\<rparr>]\<rparr>)"
    by (simp add: insert_profile_def session_def newcomers_def scenario_def member_def dave_def
          Let_def)
  have names: "default_name (js ''User'') (Option.bind (user_metadata carol) metadata_name)
                 (authUser_email carol) = js ''Carol C''"
      "default_name (js ''User'') (Option.bind (user_metadata dave) metadata_name)
                 (authUser_email dave) = js ''dave''"
    by (simp_all add: default_name_def local_part_def carol_def dave_def js_def)
  have bios: "default_bio (Option.bind (user_metadata carol) metadata_bio) = js ''Hiker''"
      "default_bio (Option.bind (user_metadata dave) metadata_bio) = []"
    by (simp_all add: default_bio_def carol_def dave_def)
  note c = new_profile_defaults[OF absent(1) carol_row, of signed_out]
  note d = new_profile_defaults[OF absent(2) dave_row, of signed_out]
  from c have c_name: "newProfile_name carol = js ''Carol C''" by (simp add: names)
  from c have c_bio: "newProfile_bio carol = js ''Hiker''" by (simp add: bios)
  from d have d_name: "newProfile_name dave = js ''dave''" by (simp add: names)
  from d have d_bio: "newProfile_bio dave = []" by (simp add: bios)
  show ?thesis
    by (simp add: c[THEN conjunct1] d[THEN conjunct1] c_name c_bio d_name d_bio)
qed

section \<open>Creating a post\<close>

lemma insert_post_Inr:
  assumes "insert_post e content uid s = Inr (row, s')"
  shows "row = \<lparr>posts_id = gen_random_uuid e, posts_content = content, posts_user_id = uid,
                posts_created_at = now e, posts_updated_at = now e\<rparr>"
    and "s' = s\<lparr>public_posts := public_posts s @ [row]\<rparr>"
  using assms by (auto simp: insert_post_def Let_def split: if_splits)

lemma handleCreatePost_blank:
  "trim (newPost d) = [] \<Longrightarrow> handleCreatePost e usr (d, s) = (d, s)"
  by (simp add: handleCreatePost_def truthy_str_def)

lemma handleCreatePost_store:
  "snd (handleCreatePost e usr (d, s)) = s \<or>
   (trim (newPost d) \<noteq> [] \<and>
    (\<exists>u row. usr = Some u \<and>
       insert_post e (newPost d) (profiles_id u) s = Inr (row, snd (handleCreatePost e usr (d, s)))))"
  by (auto simp: handleCreatePost_def truthy_str_def split: option.splits sum.splits)

text \<open>
  Claim C2 as stated fails on both paths. The dashboard does not reject a text of three
  spaces with an error: \<open>handleCreatePost\<close> returns with the dashboard, its toasts and the
  store untouched. The REST route accepts the empty string and stores the post.
\<close>

theorem create_post_counterexample:
  "trim (js ''   '') = []
   \<and> handleCreatePost (session ''alice'' ''p9'' 60)
        (Some (member ''alice'' ''Alice'' ''alice@example.com''))
        (fresh_dashboard\<lparr>newPost := js ''   ''\<rparr>, scenario)
       = (fresh_dashboard\<lparr>newPost := js ''   ''\<rparr>, scenario)
   \<and> dashboard_toasts (fresh_dashboard\<lparr>newPost := js ''   ''\<rparr>) = []
   \<and> fst (create_post libs (Some (js ''Bearer t'')) [(''content'', JStr [])]
             (initial_server (js ''2025-01-01T00:00:00.000Z'')))
       = \<lparr>status = 201,
          body = JObj [(''id'', JStr (js ''2'')), (''content'', JStr []),
                       (''authorId'', JStr (js ''1'')),
                       (''createdAt'', JStr (js ''2025-01-02T00:00:00.000Z'')),
                       (''author'', JObj [(''id'', JStr (js ''1'')),
                          (''name'', JStr (js ''Demo User'')),
                          (''email'', JStr (js ''demo@example.com'')),
                          (''bio'', JStr (js
         ''Full Stack Developer passionate about creating amazing user experiences.''))])]\<rparr>
   \<and> server_posts (snd (create_post libs (Some (js ''Bearer t'')) [(''content'', JStr [])]
             (initial_server (js ''2025-01-01T00:00:00.000Z''))))
       = [demo_post (js ''2025-01-01T00:00:00.000Z''),
          [(''id'', JStr (js ''2'')), (''content'', JStr []), (''authorId'', JStr (js ''1'')),
           (''createdAt'', JStr (js ''2025-01-02T00:00:00.000Z''))]]"
proof -
  have blank: "trim (js ''   '') = []"
    by (simp add: trim_def js_def isWhiteSpace_def)
  have token: "authenticateToken libs (Some (js ''Bearer t'')) = Inr [(''userId'', JStr (js ''1''))]"
    by (simp add: authenticateToken_def libs_def js_def truthy_str_def at_index_def)
  have served: "create_post libs (Some (js ''Bearer t'')) [(''content'', JStr [])]
             (initial_server (js ''2025-01-01T00:00:00.000Z'')) =
      (\<lparr>status = 201,
          body = JObj [(''id'', JStr (js ''2'')), (''content'', JStr []),
                       (''authorId'', JStr (js ''1'')),
                       (''createdAt'', JStr (js ''2025-01-02T00:00:00.000Z'')),
                       (''author'', JObj [(''id'', JStr (js ''1'')),
                          (''name'', JStr (js ''Demo User'')),
                          (''email'', JStr (js ''demo@example.com'')),
                          (''bio'', JStr (js
         ''Full Stack Developer passionate about creating amazing user experiences.''))])]\<rparr>,
       \<lparr>users = [demo_user (js ''2025-01-01T00:00:00.000Z'')],
        server_posts = [demo_post (js ''2025-01-01T00:00:00.000Z''),
            [(''id'', JStr (js ''2'')), (''content'', JStr []), (''authorId'', JStr (js ''1'')),
              (''createdAt'', JStr (js ''2025-01-02T00:00:00.000Z''))]]\<rparr>)"
    unfolding create_post_def token
    by (simp add: Let_def property_def getUserById_def initial_server_def libs_def
          demo_user_def)
  show ?thesis
    by (simp add: blank handleCreatePost_blank served fresh_dashboard_def)
qed

text \<open>
  Claim C2, amended. When the text is empty after trimming, \<open>handleCreatePost\<close> changes
  nothing and reports nothing; it changes the posts table only when the trimmed text is
  not empty. With such a text and a signed-in user, a successful insert appends one row
  owned by that user whose content is the text as typed, and puts the new post in front of
  the list; a failed insert is shown as an error and leaves the store alone.
\<close>

theorem create_post_guard:
  "(trim (newPost d) = [] \<longrightarrow> handleCreatePost e usr (d, s) = (d, s))
   \<and> (public_posts (snd (handleCreatePost e usr (d, s))) \<noteq> public_posts s \<longrightarrow>
        trim (newPost d) \<noteq> [])
   \<and> (trim (newPost d) \<noteq> [] \<longrightarrow>
        (case usr of
           None \<Rightarrow> handleCreatePost e usr (d, s) = (d, s)
         | Some u \<Rightarrow>
             (case insert_post e (newPost d) (profiles_id u) s of
                Inl err \<Rightarrow>
                  handleCreatePost e usr (d, s) =
                    (d\<lparr>dashboard_toasts :=
                         dashboard_toasts d @ [Toast ''Error'' (MessageOf err) True],
                       isLoading := False\<rparr>, s)
              | Inr (row, s') \<Rightarrow>
                  snd (handleCreatePost e usr (d, s)) = s'
                \<and> public_posts s' = public_posts s @ [row]
                \<and> posts_content row = newPost d
                \<and> posts_user_id row = profiles_id u
                \<and> posts (fst (handleCreatePost e usr (d, s))) = select_post s' row 0 0 # posts d
                \<and> newPost (fst (handleCreatePost e usr (d, s))) = [])))"
proof (intro conjI impI)
  assume "trim (newPost d) = []"
  then show "handleCreatePost e usr (d, s) = (d, s)" by (rule handleCreatePost_blank)
next
  assume "public_posts (snd (handleCreatePost e usr (d, s))) \<noteq> public_posts s"
  then have "snd (handleCreatePost e usr (d, s)) \<noteq> s" by auto
  with handleCreatePost_store[of e usr d s] show "trim (newPost d) \<noteq> []" by blast
next
  assume filled: "trim (newPost d) \<noteq> []"
  show "case usr of
           None \<Rightarrow> handleCreatePost e usr (d, s) = (d, s)
         | Some u \<Rightarrow>
             (case insert_post e (newPost d) (profiles_id u) s of
                Inl err \<Rightarrow>
                  handleCreatePost e usr (d, s) =
                    (d\<lparr>dashboard_toasts :=
                         dashboard_toasts d @ [Toast ''Error'' (MessageOf err) True],
                       isLoading := False\<rparr>, s)
              | Inr (row, s') \<Rightarrow>
                  snd (handleCreatePost e usr (d, s)) = s'
                \<and> public_posts s' = public_posts s @ [row]
                \<and> posts_content row = newPost d
                \<and> posts_user_id row = profiles_id u
                \<and> posts (fst (handleCreatePost e usr (d, s))) = select_post s' row 0 0 # posts d
                \<and> newPost (fst (handleCreatePost e usr (d, s))) = [])"
  proof (cases usr)
    case None
    then show ?thesis by (simp add: handleCreatePost_def)
  next
    case (Some u)
    show ?thesis
    proof (cases "insert_post e (newPost d) (profiles_id u) s")
      case (Inl err)
      with Some filled show ?thesis by (simp add: handleCreatePost_def truthy_str_def)
    next
      case (Inr created)
      obtain row s' where created: "created = (row, s')" by (cases created)
      with Inr have ins: "insert_post e (newPost d) (profiles_id u) s = Inr (row, s')" by simp
      from insert_post_Inr[OF ins] Some filled ins show ?thesis
        by (simp add: handleCreatePost_def truthy_str_def)
    qed
  qed
qed


text \<open>Alice submits three spaces, then " Hi ".\<close>

theorem create_post_guard_witness:
  "handleCreatePost (session ''alice'' ''p9'' 60)
        (Some (member ''alice'' ''Alice'' ''alice@example.com''))
        (fresh_dashboard\<lparr>newPost := js ''   ''\<rparr>, scenario)
       = (fresh_dashboard\<lparr>newPost := js ''   ''\<rparr>, scenario)
   \<and> public_posts (snd (handleCreatePost (session ''alice'' ''p9'' 60)
        (Some (member ''alice'' ''Alice'' ''alice@example.com''))
        (fresh_dashboard\<lparr>newPost := js '' Hi ''\<rparr>, scenario)))
       = [hello, \<lparr>posts_id = ''p9'', posts_content = js '' Hi '', posts_user_id = ''alice'',
                   posts_created_at = 60, posts_updated_at = 60\<rparr>]
   \<and> map like_count (posts (fst (handleCreatePost (session ''alice'' ''p9'' 60)
        (Some (member ''alice'' ''Alice'' ''alice@example.com''))
        (fresh_dashboard\<lparr>newPost := js '' Hi ''\<rparr>, scenario)))) = [0]"
proof -
  have blank: "trim (newPost (fresh_dashboard\<lparr>newPost := js ''   ''\<rparr>)) = []"
    by (simp add: trim_def js_def isWhiteSpace_def)
  have filled: "trim (newPost (fresh_dashboard\<lparr>newPost := js '' Hi ''\<rparr>)) \<noteq> []"
    by (simp add: trim_def js_def isWhiteSpace_def)
  have ins: "insert_post (session ''alice'' ''p9'' 60)
               (newPost (fresh_dashboard\<lparr>newPost := js '' Hi ''\<rparr>))
               (profiles_id (member ''alice'' ''Alice'' ''alice@example.com'')) scenario
             = Inr (\<lparr>posts_id = ''p9'', posts_content = js '' Hi '', posts_user_id = ''alice'',
                     posts_created_at = 60, posts_updated_at = 60\<rparr>,
                    scenario\<lparr>public_posts := [hello,
                      \<lparr>posts_id = ''p9'', posts_content = js '' Hi '', posts_user_id = ''alice'',
                        posts_created_at = 60, posts_updated_at = 60\<rparr>]\<rparr>)"
    by (simp add: insert_post_def session_def scenario_def member_def hello_def Let_def)
  note a = create_post_guard[of "fresh_dashboard\<lparr>newPost := js ''   ''\<rparr>"
      "session ''alice'' ''p9'' 60" "Some (member ''alice'' ''Alice'' ''alice@example.com'')"
      scenario]
  note b = create_post_guard[of "fresh_dashboard\<lparr>newPost := js '' Hi ''\<rparr>"
      "session ''alice'' ''p9'' 60" "Some (member ''alice'' ''Alice'' ''alice@example.com'')"
      scenario]
  from a blank have first: "handleCreatePost (session ''alice'' ''p9'' 60)
        (Some (member ''alice'' ''Alice'' ''alice@example.com''))
        (fresh_dashboard\<lparr>newPost := js ''   ''\<rparr>, scenario)
       = (fresh_dashboard\<lparr>newPost := js ''   ''\<rparr>, scenario)"
    by blast
  from b filled ins have second:
    "snd (handleCreatePost (session ''alice'' ''p9'' 60)
        (Some (member ''alice'' ''Alice'' ''alice@example.com''))
        (fresh_dashboard\<lparr>newPost := js '' Hi ''\<rparr>, scenario))
       = scenario\<lparr>public_posts := [hello,
                      \<lparr>posts_id = ''p9'', posts_content = js '' Hi '', posts_user_id = ''alice'',
                        posts_created_at = 60, posts_updated_at = 60\<rparr>]\<rparr>"
    and third: "posts (fst (handleCreatePost (session ''alice'' ''p9'' 60)
        (Some (member ''alice'' ''Alice'' ''alice@example.com''))
        (fresh_dashboard\<lparr>newPost := js '' Hi ''\<rparr>, scenario)))
       = select_post (scenario\<lparr>public_posts := [hello,
                      \<lparr>posts_id = ''p9'', posts_content = js '' Hi '', posts_user_id = ''alice'',
                        posts_created_at = 60, posts_updated_at = 60\<rparr>]\<rparr>)
           \<lparr>posts_id = ''p9'', posts_content = js '' Hi '', posts_user_id = ''alice'',
                        posts_created_at = 60, posts_updated_at = 60\<rparr> 0 0
         # posts (fresh_dashboard\<lparr>newPost := js '' Hi ''\<rparr>)"
    by simp_all
  have none: "posts fresh_dashboard = []"
    by (simp add: fresh_dashboard_def)
  show ?thesis
    by (simp add: first second third select_post_def none)
qed

section \<open>The REST server: passwords and duplicate emails\<close>

lemma omit_removes: "k \<notin> fst ` set (omit k obj)"
  by (auto simp: omit_def)

lemma message_no_password:
  "\<not> has_password (body (message code text))"
  "\<not> has_password (field (body (message code text)) ''user'')"
  by (simp_all add: has_password_def message_def field_def property_def)

lemma auth_body_no_password:
  "\<not> has_password (JObj [(''token'', t), (''user'', JObj (omit ''password'' u))])"
  "\<not> has_password (field (JObj [(''token'', t), (''user'', JObj (omit ''password'' u))]) ''user'')"
  using omit_removes[of "''password''" u]
  by (simp_all add: has_password_def field_def property_def)

lemma user_body_no_password: "\<not> has_password (JObj (omit ''password'' u))"
  using omit_removes[of "''password''" u] by (simp add: has_password_def)

lemma find_in_set: "find P xs = Some x \<Longrightarrow> x \<in> set xs"
  by (auto simp: find_Some_iff)

lemma find_hit: "\<exists>x \<in> set xs. P x \<Longrightarrow> \<exists>x. find P xs = Some x"
  by (cases "find P xs") (auto simp: find_None_iff)

text \<open>
  Claim C10. When a stored user has the email of the request, \<open>register\<close> answers 400
  with the message "User already exists", the body carries no token, and the users and
  the posts of the server are what they were.
\<close>

theorem register_existing_email:
  assumes taken: "\<exists>u \<in> set (users db).
                    strict_eq (property u ''email'') (property reqBody ''email'')"
  shows "register x reqBody db =
           (\<lparr>status = 400, body = JObj [(''message'', JStr (js ''User already exists''))]\<rparr>, db)
       \<and> field (body (fst (register x reqBody db))) ''token'' = JUndefined
       \<and> users (snd (register x reqBody db)) = users db
       \<and> server_posts (snd (register x reqBody db)) = server_posts db"
proof -
  obtain u where "find (\<lambda>u. strict_eq (property u ''email'') (property reqBody ''email''))
                    (users db) = Some u"
    using find_hit[OF taken] by blast
  then have "register x reqBody db = (message 400 ''User already exists'', db)"
    by (simp add: register_def)
  then show ?thesis
    by (simp add: message_def field_def property_def)
qed

text \<open>A second registration with the email of the demo user.\<close>

theorem register_existing_email_witness:
  "register libs [(''name'', JStr (js ''Eve'')), (''email'', JStr (js ''demo@example.com'')),
                  (''password'', JStr (js ''pw''))]
      (initial_server (js ''2025-01-01T00:00:00.000Z''))
     = (\<lparr>status = 400, body = JObj [(''message'', JStr (js ''User already exists''))]\<rparr>,
        initial_server (js ''2025-01-01T00:00:00.000Z''))"
proof -
  have taken: "\<exists>u \<in> set (users (initial_server (js ''2025-01-01T00:00:00.000Z''))).
      strict_eq (property u ''email'')
        (property [(''name'', JStr (js ''Eve'')), (''email'', JStr (js ''demo@example.com'')),
                   (''password'', JStr (js ''pw''))] ''email'')"
    by (simp add: initial_server_def demo_user_def property_def)
  show ?thesis
    using register_existing_email[OF taken, of libs] by simp
qed

lemma register_cases:
  "(\<exists>code text. fst (register x reqBody db) = message code text \<and> code \<noteq> 201
       \<and> snd (register x reqBody db) = db)
   \<or> (\<exists>u t. fst (register x reqBody db) =
          \<lparr>status = 201,
           body = JObj [(''token'', JStr t), (''user'', JObj (omit ''password'' u))]\<rparr>
        \<and> snd (register x reqBody db) = db\<lparr>users := users db @ [u]\<rparr>)"
proof (cases "find (\<lambda>u. strict_eq (property u ''email'') (property reqBody ''email'')) (users db)")
  case (Some u)
  then have "register x reqBody db = (message 400 ''User already exists'', db)"
    by (simp add: register_def)
  then show ?thesis by auto
next
  case None
  show ?thesis
  proof (cases "\<exists>pw. property reqBody ''password'' = JStr pw")
    case True
    then obtain pw where pw: "property reqBody ''password'' = JStr pw" by blast
    let ?u = "[(''id'', JStr (uuidv4 x)), (''name'', property reqBody ''name''),
               (''email'', property reqBody ''email''),
               (''password'', JStr (bcrypt_hash x pw)),
               (''bio'', if truthy (property reqBody ''bio'') then property reqBody ''bio''
                         else JStr []),
               (''createdAt'', JStr (toISOString x))]"
    let ?t = "jwt_sign x [(''userId'', JStr (uuidv4 x))]"
    from None pw have "register x reqBody db =
        (\<lparr>status = 201,
          body = JObj [(''token'', JStr ?t), (''user'', JObj (omit ''password'' ?u))]\<rparr>,
         db\<lparr>users := users db @ [?u]\<rparr>)"
      by (simp add: register_def Let_def)
    then have "fst (register x reqBody db) =
          \<lparr>status = 201,
           body = JObj [(''token'', JStr ?t), (''user'', JObj (omit ''password'' ?u))]\<rparr>
        \<and> snd (register x reqBody db) = db\<lparr>users := users db @ [?u]\<rparr>"
      by simp
    then show ?thesis by blast
  next
    case False
    with None have "register x reqBody db = (message 500 ''Server error'', db)"
      by (cases "property reqBody ''password''") (simp_all add: register_def)
    then show ?thesis by auto
  qed
qed

lemma login_cases:
  "(\<exists>code text. fst (login x reqBody db) = message code text \<and> code \<noteq> 200)
   \<or> (\<exists>u \<in> set (users db). \<exists>t. fst (login x reqBody db) =
          \<lparr>status = 200,
           body = JObj [(''token'', JStr t), (''user'', JObj (omit ''password'' u))]\<rparr>)"
proof (cases "find (\<lambda>u. strict_eq (property u ''email'') (property reqBody ''email'')) (users db)")
  case None
  then have "login x reqBody db = (message 400 ''Invalid credentials'', db)"
    by (simp add: login_def)
  then show ?thesis by auto
next
  case (Some u)
  then have member: "u \<in> set (users db)" by (rule find_in_set)
  show ?thesis
  proof (cases "\<exists>pw hashed. property reqBody ''password'' = JStr pw \<and> property u ''password'' = JStr hashed")
    case True
    then obtain pw hashed where "property reqBody ''password'' = JStr pw"
        "property u ''password'' = JStr hashed" by blast
    with Some have "login x reqBody db =
        (if bcrypt_compare x pw hashed then
           (\<lparr>status = 200,
             body = JObj [(''token'', JStr (jwt_sign x [(''userId'', property u ''id'')])),
                          (''user'', JObj (omit ''password'' u))]\<rparr>, db)
         else (message 400 ''Invalid credentials'', db))"
      by (simp add: login_def Let_def)
    then show ?thesis
    proof (cases "bcrypt_compare x pw hashed")
      case True
      assume "login x reqBody db =
        (if bcrypt_compare x pw hashed then
           (\<lparr>status = 200,
             body = JObj [(''token'', JStr (jwt_sign x [(''userId'', property u ''id'')])),
                          (''user'', JObj (omit ''password'' u))]\<rparr>, db)
         else (message 400 ''Invalid credentials'', db))"
      with True have "fst (login x reqBody db) =
           \<lparr>status = 200,
             body = JObj [(''token'', JStr (jwt_sign x [(''userId'', property u ''id'')])),
                          (''user'', JObj (omit ''password'' u))]\<rparr>"
        by simp
      with member show ?thesis by blast
    next
      case False
      assume "login x reqBody db =
        (if bcrypt_compare x pw hashed then
           (\<lparr>status = 200,
             body = JObj [(''token'', JStr (jwt_sign x [(''userId'', property u ''id'')])),
                          (''user'', JObj (omit ''password'' u))]\<rparr>, db)
         else (message 400 ''Invalid credentials'', db))"
      with False have "fst (login x reqBody db) = message 400 ''Invalid credentials''"
        by simp
      then show ?thesis by auto
    qed
  next
    case False
    with Some have "login x reqBody db = (message 500 ''Server error'', db)"
      by (cases "property reqBody ''password''"; cases "property u ''password''")
         (simp_all add: login_def)
    then show ?thesis by auto
  qed
qed

lemma get_user_cases:
  "(\<exists>code text. get_user x authHeader uid db = message code text \<and> code \<noteq> 200)
   \<or> (\<exists>u \<in> set (users db).
         get_user x authHeader uid db = \<lparr>status = 200, body = JObj (omit ''password'' u)\<rparr>)"
proof (cases "authenticateToken x authHeader")
  case (Inl refused)
  then have "(refused = message 401 ''Access token required'') \<or> refused = message 403 ''Invalid token''"
    by (auto simp: authenticateToken_def split: option.splits if_splits)
  with Inl show ?thesis by (auto simp: get_user_def)
next
  case (Inr reqUser)
  show ?thesis
  proof (cases "getUserById db (JStr uid)")
    case None
    with Inr show ?thesis by (auto simp: get_user_def)
  next
    case (Some u)
    then have "u \<in> set (users db)" unfolding getUserById_def by (rule find_in_set)
    with Inr Some show ?thesis by (auto simp: get_user_def)
  qed
qed

text \<open>
  Claim C9. Whatever the request and the state, the body \<open>register\<close> and \<open>login\<close> answer
  with has no \<open>password\<close> property and neither has the user object in it, and the body
  \<open>get_user\<close> answers with has none. In each success case the user object of the answer
  is a stored user with the \<open>password\<close> property taken out.
\<close>

theorem responses_without_password:
  "\<not> has_password (body (fst (register x reqBody db)))
   \<and> \<not> has_password (field (body (fst (register x reqBody db))) ''user'')
   \<and> \<not> has_password (body (fst (login x reqBody db)))
   \<and> \<not> has_password (field (body (fst (login x reqBody db))) ''user'')
   \<and> \<not> has_password (body (get_user x authHeader uid db))
   \<and> (status (fst (register x reqBody db)) = 201 \<longrightarrow>
        (\<exists>u t. users (snd (register x reqBody db)) = users db @ [u]
           \<and> body (fst (register x reqBody db)) =
               JObj [(''token'', JStr t), (''user'', JObj (omit ''password'' u))]))
   \<and> (status (fst (login x reqBody db)) = 200 \<longrightarrow>
        (\<exists>u \<in> set (users db). \<exists>t.
             body (fst (login x reqBody db)) =
               JObj [(''token'', JStr t), (''user'', JObj (omit ''password'' u))]))
   \<and> (status (get_user x authHeader uid db) = 200 \<longrightarrow>
        (\<exists>u \<in> set (users db).
             body (get_user x authHeader uid db) = JObj (omit ''password'' u)))"
proof (intro conjI impI)
  show "\<not> has_password (body (fst (register x reqBody db)))"
    using register_cases[of x reqBody db]
    by (auto simp: message_no_password auth_body_no_password)
  show "\<not> has_password (field (body (fst (register x reqBody db))) ''user'')"
    using register_cases[of x reqBody db]
    by (auto simp: message_no_password auth_body_no_password)
  show "\<not> has_password (body (fst (login x reqBody db)))"
    using login_cases[of x reqBody db]
    by (auto simp: message_no_password auth_body_no_password)
  show "\<not> has_password (field (body (fst (login x reqBody db))) ''user'')"
    using login_cases[of x reqBody db]
    by (auto simp: message_no_password auth_body_no_password)
  show "\<not> has_password (body (get_user x authHeader uid db))"
    using get_user_cases[of x authHeader uid db]
    by (auto simp: message_no_password user_body_no_password)
next
  assume "status (fst (register x reqBody db)) = 201"
  then show "\<exists>u t. users (snd (register x reqBody db)) = users db @ [u]
           \<and> body (fst (register x reqBody db)) =
               JObj [(''token'', JStr t), (''user'', JObj (omit ''password'' u))]"
    using register_cases[of x reqBody db] by (auto simp: message_def)
next
  assume "status (fst (login x reqBody db)) = 200"
  then show "\<exists>u \<in> set (users db). \<exists>t.
             body (fst (login x reqBody db)) =
               JObj [(''token'', JStr t), (''user'', JObj (omit ''password'' u))]"
    using login_cases[of x reqBody db] by (auto simp: message_def)
next
  assume "status (get_user x authHeader uid db) = 200"
  then show "\<exists>u \<in> set (users db).
             body (get_user x authHeader uid db) = JObj (omit ''password'' u)"
    using get_user_cases[of x authHeader uid db] by (auto simp: message_def)
qed


text \<open>Carol registers, logs in, and her account is read by id.\<close>

theorem responses_without_password_witness:
  "register libs carols_signup (initial_server (js ''2025-01-01T00:00:00.000Z''))
     = (\<lparr>status = 201,
         body = JObj [(''token'', JStr (js ''t'')),
                      (''user'', JObj [(''id'', JStr (js ''2'')), (''name'', JStr (js ''Carol'')),
                         (''email'', JStr (js ''carol@example.com'')), (''bio'', JStr []),
                         (''createdAt'', JStr (js ''2025-01-02T00:00:00.000Z''))])]\<rparr>,
        with_carol)
   \<and> \<not> has_password (field (body (fst
         (register libs carols_signup (initial_server (js ''2025-01-01T00:00:00.000Z''))))) ''user'')
   \<and> status (fst (login libs carols_signup with_carol)) = 200
   \<and> \<not> has_password (field (body (fst (login libs carols_signup with_carol))) ''user'')
   \<and> status (get_user libs (Some (js ''Bearer t'')) (js ''2'') with_carol) = 200
   \<and> \<not> has_password (body (get_user libs (Some (js ''Bearer t'')) (js ''2'') with_carol))"
proof -
  have reg: "register libs carols_signup (initial_server (js ''2025-01-01T00:00:00.000Z''))
     = (\<lparr>status = 201,
         body = JObj [(''token'', JStr (js ''t'')),
                      (''user'', JObj [(''id'', JStr (js ''2'')), (''name'', JStr (js ''Carol'')),
                         (''email'', JStr (js ''carol@example.com'')), (''bio'', JStr []),
                         (''createdAt'', JStr (js ''2025-01-02T00:00:00.000Z''))])]\<rparr>,
        with_carol)"
    by (simp add: register_def Let_def property_def carols_signup_def initial_server_def
          demo_user_def libs_def omit_def with_carol_def carols_account_def js_def)
  have log: "status (fst (login libs carols_signup with_carol)) = 200"
    by (simp add: login_def Let_def property_def carols_signup_def with_carol_def
          demo_user_def carols_account_def libs_def js_def)
  have token: "authenticateToken libs (Some (js ''Bearer t'')) = Inr [(''userId'', JStr (js ''1''))]"
    by (simp add: authenticateToken_def libs_def js_def truthy_str_def at_index_def)
  have usr: "status (get_user libs (Some (js ''Bearer t'')) (js ''2'') with_carol) = 200"
    unfolding get_user_def token
    by (simp add: getUserById_def property_def with_carol_def demo_user_def carols_account_def
          js_def)
  show ?thesis
    using responses_without_password[of libs carols_signup
        "initial_server (js ''2025-01-01T00:00:00.000Z'')" "Some (js ''Bearer t'')" "js ''2''"]
      responses_without_password[of libs carols_signup with_carol "Some (js ''Bearer t'')"
        "js ''2''"]
      reg log usr
    by simp
qed

end
